theory Spec2Isabelle
  imports Main "HOL-Library.AList"
begin

section \<open>Strings and wildcards\<close>

text \<open>
  Go strings are byte sequences; they are modelled as \<^typ>\<open>string\<close>.
  \<open>contains\<close> is \<open>strings.Contains\<close>, \<open>hasPrefix\<close> is \<open>strings.HasPrefix\<close> and
  \<open>replaceAll\<close> is \<open>strings.ReplaceAll\<close> (non-overlapping matches, left to right; an
  empty pattern matches before every byte and at the end).
\<close>

definition hasPrefix :: "string \<Rightarrow> string \<Rightarrow> bool" where
  "hasPrefix s p = (take (length p) s = p)"

fun contains :: "string \<Rightarrow> string \<Rightarrow> bool" where
  "contains [] sub = (sub = [])"
| "contains (c # cs) sub = (hasPrefix (c # cs) sub \<or> contains cs sub)"

function replaceAll :: "string \<Rightarrow> string \<Rightarrow> string \<Rightarrow> string" where
  "replaceAll s old new =
     (if old = [] then new @ concat (map (\<lambda>c. c # new) s)
      else (case s of
              [] \<Rightarrow> []
            | c # cs \<Rightarrow>
                if hasPrefix s old then new @ replaceAll (drop (length old) s) old new
                else c # replaceAll cs old new))"
  by pat_completeness auto
termination
  by (relation "measure (\<lambda>(s, old, new). length s)") auto

declare replaceAll.simps [simp del]

definition ctxWildcard :: string where "ctxWildcard = ''<?CTX?>''"
definition ctxCustomWildcard :: string where "ctxCustomWildcard = ''<?CTX_CUSTOM?>''"
definition ctxPrefWildcard :: string where "ctxPrefWildcard = ''<?CTX_PREF?>''"
definition aliasWildCard :: string where "aliasWildCard = ''<?ALIAS1?>''"

text \<open>\<open>replaceCtxExprWildcard\<close>: an empty template stands for the literal itself.\<close>

definition replaceCtxExprWildcard :: "string \<Rightarrow> string \<Rightarrow> string \<Rightarrow> string" where
  "replaceCtxExprWildcard wildcard ctxRegExpr ctxLit =
     (if ctxRegExpr = [] then ctxLit
      else if contains ctxRegExpr wildcard then replaceAll ctxRegExpr wildcard ctxLit
      else ctxRegExpr)"

section \<open>Shared data (types.go)\<close>

text \<open>
  A \<open>token.Pos\<close> is a natural number, \<open>token.NoPos\<close> is \<open>0\<close> and a position is valid
  when it is not \<open>0\<close>. Pointers that the code only compares or uses as map keys
  (\<open>*token.FileSet\<close>, \<open>*types.Package\<close>, \<open>*types.Interface\<close>, \<open>*ast.InterfaceType\<close>)
  are identifiers of type \<^typ>\<open>nat\<close>; a nil pointer is \<open>None\<close>.
\<close>

type_synonym pos = nat

definition NoPos :: pos where "NoPos = 0"

definition IsValid :: "pos \<Rightarrow> bool" where
  "IsValid p = (p \<noteq> NoPos)"

text \<open>\<open>uniquePosInfo\<close>: a position together with the file set it belongs to.\<close>

type_synonym uniquePosInfo = "pos \<times> nat option"

text \<open>\<open>types.Package\<close>, as far as the code reads it.\<close>

record typesPackage =
  pkgId :: nat
  Path :: string
  Name :: string

text \<open>
  \<open>replacementInfo\<close>. The import map \<open>ctxImports\<close> (path to alias) is an association
  list with one entry per key; a nil map is the empty list.
\<close>

record replacementInfo =
  newName :: string
  argPos :: int
  ctxImports :: "(string \<times> string) list"
  ctxRegExpr :: string
  ctxExpr :: string

text \<open>
  \<open>callSites\<close> stores pointers. Two of them point into the configuration itself
  (\<open>&cfg.commonCallReplacement\<close>, \<open>&cfg.nilCallReplacement\<close>) and are read through
  the configuration at the time of use; every other pointer owns a record that is
  never written after its creation.
\<close>

datatype replRef = CommonRepl | NilRepl | OwnRepl replacementInfo

text \<open>The constants of \<open>fnVisited\<close> (an \<open>iota\<close> enumeration).\<close>

datatype fnType = regularFn | freshCtxFn | containerSig | extFn | extPkg | extRecv

section \<open>Types, as \<open>go/types\<close> presents them\<close>

text \<open>
  The type checker is not part of the repository; the analysis reads its results.
  A type is one of the kinds that the code tells apart. Pointers of \<open>go/types\<close> that
  serve as identities (\<open>*types.Named\<close>, \<open>*types.Interface\<close>, \<open>*types.Struct\<close>) are
  numbers. A named type carries the name, package and position of its object and
  its underlying type; an interface its explicit methods and its embedded types;
  a struct, for every field, whether it is embedded, and its type. A nil tuple of
  parameters or results is the empty list.
\<close>

record typesFunc =
  methName :: string
  methPos :: pos
  methPkg :: "typesPackage option"

datatype goType =
    TBasic string
  | TNamed nat string "typesPackage option" pos goType
  | TPointer goType
  | TSlice goType
  | TArray string goType
  | TMap goType goType
  | TSignature sig
  | TInterface iface
  | TStruct nat "(bool \<times> goType) list"
and sig = Sig (Recv: "var option") (Params: "var list") (Results: "var list") (Variadic: bool)
and var = Var (varName: string) (varPos: pos) (varType: goType) (varPkg: "typesPackage option")
and iface = Iface (ifaceId: nat) (ExplicitMethods: "typesFunc list") (Embeddeds: "goType list")

fun Underlying :: "goType \<Rightarrow> goType" where
  "Underlying (TNamed i n p q u) = u"
| "Underlying t = t"

text \<open>
  \<open>types.TypeString\<close> with a qualifier for packages. Named types, pointers and basic
  types are printed as \<open>go/types\<close> prints them; these are the strings that the code
  compares. Of an unnamed struct or interface type only the keyword is printed.
\<close>

fun TypeString :: "(typesPackage \<Rightarrow> string) \<Rightarrow> goType \<Rightarrow> string"
and tupleString :: "(typesPackage \<Rightarrow> string) \<Rightarrow> var list \<Rightarrow> string" where
  "TypeString qf (TBasic n) = n"
| "TypeString qf (TNamed i n p q u) =
     (case p of
        None \<Rightarrow> n
      | Some pkg \<Rightarrow> (if qf pkg = [] then n else qf pkg @ ''.'' @ n))"
| "TypeString qf (TPointer t) = ''*'' @ TypeString qf t"
| "TypeString qf (TSlice t) = ''[]'' @ TypeString qf t"
| "TypeString qf (TArray n t) = ''['' @ n @ '']'' @ TypeString qf t"
| "TypeString qf (TMap k v) = ''map['' @ TypeString qf k @ '']'' @ TypeString qf v"
| "TypeString qf (TSignature (Sig r ps rs v)) =
     ''func('' @ tupleString qf ps @ '')''
       @ (case rs of
            [] \<Rightarrow> []
          | [Var n q t p] \<Rightarrow> (if n = [] then '' '' @ TypeString qf t
                               else '' ('' @ tupleString qf rs @ '')'')
          | _ \<Rightarrow> '' ('' @ tupleString qf rs @ '')'')"
| "TypeString qf (TInterface i) = ''interface{...}''"
| "TypeString qf (TStruct i fs) = ''struct{...}''"
| "tupleString qf [] = []"
| "tupleString qf (Var n q t p # vs) =
     (if n = [] then [] else n @ '' '') @ TypeString qf t
       @ (if vs = [] then [] else '', '' @ tupleString qf vs)"

text \<open>\<open>computePkgID\<close>, and the qualifier of \<open>Type().String()\<close>.\<close>

definition computePkgID :: "typesPackage \<Rightarrow> string" where
  "computePkgID p = Path p @ Name p"

definition pkgPathQualifier :: "typesPackage \<Rightarrow> string" where
  "pkgPathQualifier p = Path p"

definition getTypeWithPkgFromVar :: "var option \<Rightarrow> string" where
  "getTypeWithPkgFromVar v =
     (case v of None \<Rightarrow> [] | Some w \<Rightarrow> TypeString computePkgID (varType w))"

section \<open>The program in SSA form and its call graph\<close>

text \<open>
  The SSA builder and the call-graph construction are not part of the repository
  either. A function has an identity, a name, a position, a package (or none), a
  signature and, for a function literal, the enclosing function. A value is one
  of the kinds of \<open>go/ssa\<close> that the code tells apart, with the parts it reads; an
  \<open>Alloc\<close> has an identity, because the code compares allocations; a \<open>Slice\<close> carries
  the instructions of its block. \<open>Call sg\<close> is a call whose callee has the signature
  \<open>sg\<close>.
\<close>

datatype ssaFunction =
  SsaFunction (fnId: nat) (fnName: string) (fnPos: pos) (fnPkg: "typesPackage option")
    (fnSignature: sig) (fnParent: "ssaFunction option")

datatype ssaValue =
    Function ssaFunction
  | MakeClosure ssaFunction
  | MakeInterface ssaValue goType
  | Parameter string pos goType ssaFunction
  | ChangeType ssaValue goType
  | ChangeInterface ssaValue goType
  | Convert ssaValue goType
  | Call sig
  | UnOp goType
  | Const goType
  | Phi goType
  | Extract goType
  | Slice ssaValue goType "ssaInstr list"
  | Alloc nat goType
  | MakeMap goType
  | MakeSlice goType
  | IndexAddr ssaValue
  | OtherValue goType
and ssaInstr = Instr ssaValue | OtherInstr

text \<open>\<open>Value.Type()\<close>, for the values whose type the code asks for.\<close>

fun valueType :: "ssaValue \<Rightarrow> goType" where
  "valueType (Function f) = TSignature (fnSignature f)"
| "valueType (MakeClosure f) = TSignature (fnSignature f)"
| "valueType (MakeInterface x t) = t"
| "valueType (Parameter n p t f) = t"
| "valueType (ChangeType x t) = t"
| "valueType (ChangeInterface x t) = t"
| "valueType (Convert x t) = t"
| "valueType (Call sg) =
     (case Results sg of [r] \<Rightarrow> varType r | rs \<Rightarrow> TBasic (tupleString pkgPathQualifier rs))"
| "valueType (UnOp t) = t"
| "valueType (Const t) = t"
| "valueType (Phi t) = t"
| "valueType (Extract t) = t"
| "valueType (Slice x t is) = t"
| "valueType (Alloc i t) = t"
| "valueType (MakeMap t) = t"
| "valueType (MakeSlice t) = t"
| "valueType (IndexAddr x) = valueType x"
| "valueType (OtherValue t) = t"

text \<open>
  A call instruction with its \<open>CallCommon\<close>: position, enclosing function, called
  value, the interface method of an invoke-mode call, the arguments, and the
  signature of the callee as \<open>CallCommon.Signature\<close> gives it.
\<close>

record callSite =
  sitePos :: pos
  siteParent :: ssaFunction
  callValue :: ssaValue
  callMethod :: "typesFunc option"
  callArgs :: "ssaValue list"
  callSignature :: sig

definition IsInvoke :: "callSite \<Rightarrow> bool" where
  "IsInvoke c = (callMethod c \<noteq> None)"

text \<open>
  A node of the call graph is a pointer; an edge names its two nodes by function
  and ID. The edges of a node are looked up in the graph by its ID, and the node of
  a function by the function.
\<close>

record nodeRef =
  nodeFunc :: ssaFunction
  nodeID :: nat

record edge =
  Caller :: nodeRef
  Site :: callSite
  Callee :: nodeRef

record cgNode =
  Func :: ssaFunction
  ID :: nat
  In :: "edge list"
  Out :: "edge list"

record graph =
  Nodes :: "cgNode list"

definition edgePos :: "edge \<Rightarrow> pos" where
  "edgePos e = sitePos (Site e)"

definition refOf :: "cgNode \<Rightarrow> nodeRef" where
  "refOf n = \<lparr>nodeFunc = Func n, nodeID = ID n\<rparr>"

definition nodeOfFunc :: "graph \<Rightarrow> ssaFunction \<Rightarrow> cgNode option" where
  "nodeOfFunc g f = find (\<lambda>n. Func n = f) (Nodes g)"

definition inEdges :: "graph \<Rightarrow> nodeRef \<Rightarrow> edge list" where
  "inEdges g r = (case find (\<lambda>n. ID n = nodeID r) (Nodes g) of Some n \<Rightarrow> In n | None \<Rightarrow> [])"

definition outEdges :: "graph \<Rightarrow> nodeRef \<Rightarrow> edge list" where
  "outEdges g r = (case find (\<lambda>n. ID n = nodeID r) (Nodes g) of Some n \<Rightarrow> Out n | None \<Rightarrow> [])"

text \<open>
  What the analysis asks of \<open>go/types\<close> and of the SSA program: whether a type
  implements an interface (\<open>types.Implements\<close>), the method set of a type with the
  function of every concrete method (\<open>MethodSets.MethodSet\<close>, \<open>MethodValue\<close>), whether
  two signatures are identical (\<open>types.Identical\<close>), and the blocks of a function.
\<close>

record program =
  Implements :: "goType \<Rightarrow> iface \<Rightarrow> bool"
  MethodSet :: "goType \<Rightarrow> (string \<times> ssaFunction option) list"
  Identical :: "sig \<Rightarrow> sig \<Rightarrow> bool"
  Blocks :: "ssaFunction \<Rightarrow> ssaInstr list list"

section \<open>The syntax trees seen by the rewrite (transform.go)\<close>

text \<open>
  \<open>astutil.Apply(f, nil, cfg.astRewrite)\<close> calls \<open>astRewrite\<close> once for every node
  of the file, children before parents. A file is its import specifications
  (name, or the empty string, and unquoted path) and the sequence of these calls,
  each with the parts of the node and of its parent that \<open>astRewrite\<close> reads or writes.
  A nil slice and an empty slice are both the empty list (the parser yields nil
  for an empty argument, parameter or name list).
\<close>

datatype expr =
    Ident string
  | SelectorExpr expr string
  | CallExpr expr pos "expr list"
  | OtherExpr string

datatype typeExpr =
    TypeIdent string
  | FuncType "field list" "field list"
  | CompositeType string "typeExpr list"
  | FieldsType string "field list"
and field = Field pos "string list" typeExpr

datatype stmt = AssignStmt string pos string | OtherStmt string

text \<open>What the cursor's parent is, for a call expression.\<close>

datatype parentKind = ParentCallExpr | ParentGoStmt pos | ParentDeferStmt pos | ParentOther

datatype node =
    CallNode parentKind expr
  | FuncDeclType pos "field list" "field list"
  | FuncLitType pos "field list" "field list"
  | ParamsList "field list"
  | IfaceMethods nat "field list"
  | FuncDeclBody pos "stmt list option"
  | FuncLitBody pos "stmt list option"
  | TypeSpecType pos typeExpr
  | FieldNode field
  | FieldName0 pos string
  | OtherNode

record astFile =
  fileImports :: "(string \<times> string) list"
  fileNodes :: "node list"

text \<open>
  \<open>packages.Package\<close>; \<open>Scope\<close> is \<open>Types.Scope()\<close>: the names declared in the package
  and the types of their objects.
\<close>

record package =
  PkgPath :: string
  PkgName :: string
  Types :: typesPackage
  Scope :: "(string \<times> goType) list"
  Syntax :: "astFile list"
  CompiledGoFiles :: "string list"

text \<open>Every \<open>log.Fatalf\<close> of the code and the run-time panics that are modelled.\<close>

datatype fatal =
    RootChanged
  | UnrecognizedCallExpr
  | ArgPosBeyondLast
  | TooManyCustomImports
  | AliasPlaceholderWithoutAlias
  | NoBodyFuncDecl
  | NoBodyFuncLit
  | IndexOutOfRange
  | MoreThanOneResult
  | UnrecognizedArgument
  | NilDereference

text \<open>
  \<open>transformerConfig\<close>. \<open>newImports\<close> is iterated by \<open>addImports\<close> and is an
  association list; \<open>existingImports\<close> is only looked up.
\<close>

text \<open>
  \<open>config\<close> with the embedded \<open>jsonConfig\<close>. The maps \<open>ifaces\<close> and
  \<open>ifaceModified\<close> are iterated and are association lists. \<open>PropagationStops\<close> and
  \<open>ExtEmbedTypes\<close> are nested maps that the code only looks up level by level; they
  are the lists of the key paths they hold. \<open>Warnings\<close> is \<open>debugData.Warnings\<close>,
  each entry reduced to the position and the message.
\<close>

record config =
  CtxPkgPath :: string
  CtxPkgName :: string
  CtxPkgAlias :: string
  CtxParamName :: string
  CtxParamType :: string
  CtxParamInvalid :: string
  LibPkgPath :: string
  LibPkgName :: string
  LibIface :: string
  CtxCustomPkgPath :: string
  CtxCustomPkgName :: string
  CtxCustomParamType :: string
  CtxCustomExprExtract :: string
  ExtPkgPaths :: "string list"
  ExtEmbedTypes :: "(string \<times> string \<times> string) list"
  LibFns :: "(string \<times> (string \<times> replacementInfo) list) list"
  PropagationStops :: "(string \<times> string \<times> string \<times> string) list"
  debugLevel :: int
  Warnings :: "(pos \<times> string) list"
  commonCallReplacement :: replacementInfo
  nilCallReplacement :: replacementInfo
  ctxParamTypeWithPkgAlias :: string
  ctxParamTypeWithPkgPathName :: string
  ctxCustomParamTypeWithPkgPathName :: string
  libIfaces :: "iface list"
  ifaces :: "(iface \<times> typesPackage) list"
  extRecvTypes :: "nat set"
  fsets :: "nat \<rightharpoonup> nat"
  largeCode :: bool
  initial :: "package list"
  fnVisited :: "uniquePosInfo \<rightharpoonup> fnType"
  callSites :: "uniquePosInfo \<rightharpoonup> replRef"
  callSitesRenamed :: "uniquePosInfo \<rightharpoonup> string"
  ifaceModified :: "(iface \<times> string list) list"
  fnParamsVisited :: "uniquePosInfo \<rightharpoonup> bool"
  renameParamsVisited :: "uniquePosInfo \<rightharpoonup> bool"

definition deref :: "'a config_scheme \<Rightarrow> replRef \<Rightarrow> replacementInfo" where
  "deref cfg r = (case r of
       CommonRepl \<Rightarrow> commonCallReplacement cfg
     | NilRepl \<Rightarrow> nilCallReplacement cfg
     | OwnRepl i \<Rightarrow> i)"

section \<open>Utilities (utils.go)\<close>

definition getUniquePosPkg :: "'a config_scheme \<Rightarrow> typesPackage option \<Rightarrow> pos \<Rightarrow> uniquePosInfo" where
  "getUniquePosPkg cfg pkg p =
     (if largeCode cfg
      then (p, case pkg of None \<Rightarrow> None | Some q \<Rightarrow> fsets cfg (pkgId q))
      else (p, None))"

definition isPkgExternal :: "'a config_scheme \<Rightarrow> string \<Rightarrow> bool" where
  "isPkgExternal cfg pkgPath =
     (if hasPrefix pkgPath (CtxPkgPath cfg) then True
      else if hasPrefix pkgPath (LibPkgPath cfg) then True
      else list_ex (\<lambda>extPath. hasPrefix pkgPath extPath) (ExtPkgPaths cfg))"

text \<open>\<open>writeWarning\<close> records a warning only at a positive debug level.\<close>

definition writeWarning :: "pos \<Rightarrow> string \<Rightarrow> 'a config_scheme \<Rightarrow> 'a config_scheme" where
  "writeWarning p msg cfg =
     (if debugLevel cfg > 0 then cfg\<lparr>Warnings := Warnings cfg @ [(p, msg)]\<rparr> else cfg)"

section \<open>The transformation phase (transform.go)\<close>

record transformerConfig = config +
  currentPkg :: package
  existingImports :: "string \<rightharpoonup> string"
  newImports :: "(string \<times> string) list"
  modified :: bool
  astIfaceModified :: "nat set"
  ifaceMethodModifiedNum :: int
  astNamedModifiedNum :: int
  astParamsModifiedNum :: int
  astCallsModifiedNum :: int
  astSigsModifiedNum :: int
  astDefsModifiedNum :: int

definition posInCurrentPkg :: "transformerConfig \<Rightarrow> pos \<Rightarrow> uniquePosInfo" where
  "posInCurrentPkg cfg p = getUniquePosPkg cfg (Some (Types (currentPkg cfg))) p"

subsection \<open>Imports and context expressions of a file\<close>

definition importsOf :: "astFile \<Rightarrow> (string \<rightharpoonup> string)" where
  "importsOf f = foldl (\<lambda>m (name, path). m(path \<mapsto> name)) Map.empty (fileImports f)"

definition computeExistingImports :: "astFile \<Rightarrow> transformerConfig \<Rightarrow> transformerConfig" where
  "computeExistingImports f cfg = cfg\<lparr>existingImports := importsOf f\<rparr>"

definition initContextExpressions :: "transformerConfig \<Rightarrow> transformerConfig" where
  "initContextExpressions cfg =
     (let pref = (case existingImports cfg (CtxPkgPath cfg) of
                    Some pkgAlias \<Rightarrow> if pkgAlias \<noteq> [] then pkgAlias else CtxPkgName cfg
                  | None \<Rightarrow> if CtxPkgAlias cfg = [] then CtxPkgName cfg else CtxPkgAlias cfg);
          cfg1 = cfg\<lparr>CtxParamInvalid := pref @ ''.'' @ CtxParamInvalid cfg,
                     ctxParamTypeWithPkgAlias := pref @ ''.'' @ CtxParamType cfg\<rparr>
      in cfg1\<lparr>nilCallReplacement :=
                 \<lparr>newName = [], argPos = 1, ctxImports = [], ctxRegExpr = [],
                  ctxExpr = CtxParamInvalid cfg1\<rparr>\<rparr>)"

text \<open>
  The loop of \<open>getCtxExprAndAddImports\<close> over \<open>callReplacement.ctxImports\<close>; some of
  its branches return from the function.
\<close>

fun ctxImportsLoop ::
  "(string \<rightharpoonup> string) \<Rightarrow> string \<Rightarrow> (string \<times> string) list \<Rightarrow> (string \<times> string) list
     \<Rightarrow> fatal + string \<times> (string \<times> string) list" where
  "ctxImportsLoop existing ctxE [] newImps = Inr (ctxE, newImps)"
| "ctxImportsLoop existing ctxE ((newImp, newAlias) # rest) newImps =
     (case existing newImp of
        Some alias \<Rightarrow>
          if contains ctxE aliasWildCard then
            (if alias = [] then
               (if newAlias = [] then Inl AliasPlaceholderWithoutAlias
                else Inr (replaceCtxExprWildcard aliasWildCard ctxE newAlias,
                          AList.update newImp newAlias newImps))
             else Inr (replaceCtxExprWildcard aliasWildCard ctxE alias,
                       AList.update newImp alias newImps))
          else ctxImportsLoop existing ctxE rest
                 (if newAlias \<noteq> [] then AList.update newImp newAlias newImps else newImps)
      | None \<Rightarrow>
          if contains ctxE aliasWildCard then
            (if newAlias = [] then Inl AliasPlaceholderWithoutAlias
             else Inr (replaceCtxExprWildcard aliasWildCard ctxE newAlias,
                       AList.update newImp newAlias newImps))
          else ctxImportsLoop existing ctxE rest (AList.update newImp newAlias newImps))"

definition getCtxExprAndAddImports ::
  "'a config_scheme \<Rightarrow> (string \<rightharpoonup> string) \<Rightarrow> (string \<times> string) list \<Rightarrow> replacementInfo
     \<Rightarrow> fatal + string \<times> (string \<times> string) list" where
  "getCtxExprAndAddImports cfg existing newImps callReplacement =
     (if length (ctxImports callReplacement) > 1 then Inl TooManyCustomImports
      else ctxImportsLoop existing
             (if ctxExpr callReplacement = []
              then replaceCtxExprWildcard ctxWildcard (ctxRegExpr callReplacement) (CtxParamName cfg)
              else ctxExpr callReplacement)
             (ctxImports callReplacement) newImps)"

definition resolveCtxExprPackageWildcard :: "transformerConfig \<Rightarrow> string \<Rightarrow> string" where
  "resolveCtxExprPackageWildcard cfg e =
     (let found = existingImports cfg (CtxPkgPath cfg);
          pkgAlias = (case found of Some a \<Rightarrow> a | None \<Rightarrow> []);
          replacementName =
            (if pkgAlias \<noteq> [] then pkgAlias
             else if found = None \<and> CtxPkgAlias cfg \<noteq> [] then CtxPkgAlias cfg
             else CtxPkgName cfg)
      in replaceCtxExprWildcard ctxPrefWildcard e replacementName)"

text \<open>
  The context argument of one call site: the expression of the record, its imports
  noted in \<open>newImports\<close>, the package wildcard resolved for the current file.
\<close>

definition ctxArgument :: "transformerConfig \<Rightarrow> replacementInfo \<Rightarrow> fatal + expr \<times> transformerConfig" where
  "ctxArgument cfg callReplacement =
     (case getCtxExprAndAddImports cfg (existingImports cfg) (newImports cfg) callReplacement of
        Inl e \<Rightarrow> Inl e
      | Inr (ctxE, newImps) \<Rightarrow>
          Inr (Ident (resolveCtxExprPackageWildcard cfg ctxE), cfg\<lparr>newImports := newImps\<rparr>))"

definition paramLessWarning :: string where
  "paramLessWarning = ''WARNING: requesting to put a context argument in a position other then the first one for parameter-less function - defaulting to first position''"


subsection \<open>Call sites\<close>

text \<open>
  \<open>renameCallSite\<close> returns the position that identifies the call site: the left
  parenthesis, or the keyword of the enclosing \<open>go\<close> or \<open>defer\<close> statement.
\<close>

definition callSitePos :: "parentKind \<Rightarrow> pos \<Rightarrow> pos" where
  "callSitePos parent lparen =
     (case parent of ParentGoStmt g \<Rightarrow> g | ParentDeferStmt d \<Rightarrow> d | _ \<Rightarrow> lparen)"

definition renameCallSite ::
  "transformerConfig \<Rightarrow> parentKind \<Rightarrow> expr \<Rightarrow> fatal + expr \<times> pos \<times> transformerConfig" where
  "renameCallSite cfg parent e =
     (case e of
        CallExpr fn lparen args \<Rightarrow>
          (let p = callSitePos parent lparen in
           case callSitesRenamed cfg (posInCurrentPkg cfg p) of
             None \<Rightarrow> Inr (e, p, cfg)
           | Some new \<Rightarrow>
               (case fn of
                  SelectorExpr x sel \<Rightarrow>
                    Inr (CallExpr (SelectorExpr x new) lparen args, p, cfg\<lparr>modified := True\<rparr>)
                | Ident n \<Rightarrow> Inr (CallExpr (Ident new) lparen args, p, cfg\<lparr>modified := True\<rparr>)
                | _ \<Rightarrow> Inl UnrecognizedCallExpr))
      | _ \<Rightarrow> Inr (e, NoPos, cfg))"

text \<open>
  The loop of \<open>rewriteCallSite\<close> over the arguments of a call: an argument that is
  itself a call without arguments and has a record gets the context as its only
  argument. The warning is written at the position of the outer call.
\<close>

definition rewriteNoArgCall ::
  "transformerConfig \<Rightarrow> pos \<Rightarrow> expr \<Rightarrow> fatal + expr \<times> transformerConfig" where
  "rewriteNoArgCall cfg p a =
     (case a of
        CallExpr fn lparen args \<Rightarrow>
          if args \<noteq> [] then Inr (a, cfg)
          else
            (case callSites cfg (posInCurrentPkg cfg lparen) of
               None \<Rightarrow> Inr (a, cfg)
             | Some r \<Rightarrow>
                 (let callReplacement = deref cfg r;
                      cfg1 = (if argPos callReplacement \<noteq> 1
                              then writeWarning p paramLessWarning cfg else cfg)
                  in case ctxArgument cfg1 callReplacement of
                       Inl x \<Rightarrow> Inl x
                     | Inr (arg, cfg2) \<Rightarrow>
                         Inr (CallExpr fn lparen [arg],
                              cfg2\<lparr>modified := True,
                                    astCallsModifiedNum := astCallsModifiedNum cfg2 + 1\<rparr>)))
      | _ \<Rightarrow> Inr (a, cfg))"

fun rewriteNoArgCalls ::
  "transformerConfig \<Rightarrow> pos \<Rightarrow> expr list \<Rightarrow> fatal + expr list \<times> transformerConfig" where
  "rewriteNoArgCalls cfg p [] = Inr ([], cfg)"
| "rewriteNoArgCalls cfg p (a # rest) =
     (case rewriteNoArgCall cfg p a of
        Inl x \<Rightarrow> Inl x
      | Inr (a', cfg1) \<Rightarrow>
          (case rewriteNoArgCalls cfg1 p rest of
             Inl x \<Rightarrow> Inl x
           | Inr (rest', cfg2) \<Rightarrow> Inr (a' # rest', cfg2)))"

definition rewriteCallSite ::
  "transformerConfig \<Rightarrow> parentKind \<Rightarrow> expr \<Rightarrow> pos \<Rightarrow> fatal + expr \<times> transformerConfig" where
  "rewriteCallSite cfg parent e p =
     (case e of
        CallExpr fn lparen args \<Rightarrow>
          (let uniquePos = posInCurrentPkg cfg p in
           if parent \<noteq> ParentCallExpr \<and> args = [] then
             (case callSites cfg uniquePos of
                None \<Rightarrow> Inr (e, cfg)
              | Some r \<Rightarrow>
                  (let callReplacement = deref cfg r;
                       cfg1 = (if argPos callReplacement \<noteq> 1
                               then writeWarning p paramLessWarning cfg else cfg)
                   in case ctxArgument cfg1 callReplacement of
                        Inl x \<Rightarrow> Inl x
                      | Inr (arg, cfg2) \<Rightarrow>
                          Inr (CallExpr fn lparen [arg],
                               cfg2\<lparr>modified := True,
                                     astCallsModifiedNum := astCallsModifiedNum cfg2 + 1\<rparr>)))
           else if args \<noteq> [] then
             (case rewriteNoArgCalls cfg p args of
                Inl x \<Rightarrow> Inl x
              | Inr (args1, cfg1) \<Rightarrow>
                  (case callSites cfg1 uniquePos of
                     None \<Rightarrow> Inr (CallExpr fn lparen args1, cfg1)
                   | Some r \<Rightarrow>
                       (let callReplacement = deref cfg1 r in
                        if \<not> argPos callReplacement < 1
                           \<and> argPos callReplacement - 1 > int (length args1)
                        then Inl ArgPosBeyondLast
                        else
                          (let k = (if argPos callReplacement < 1 then length args1
                                    else nat (argPos callReplacement - 1))
                           in case ctxArgument cfg1 callReplacement of
                                Inl x \<Rightarrow> Inl x
                              | Inr (arg, cfg2) \<Rightarrow>
                                  Inr (CallExpr fn lparen (take k args1 @ [arg] @ drop k args1),
                                       cfg2\<lparr>modified := True,
                                             astCallsModifiedNum := astCallsModifiedNum cfg2 + 1\<rparr>)))))
           else Inr (e, cfg))
      | _ \<Rightarrow> Inr (e, cfg))"

subsection \<open>Parameters and bodies\<close>

definition addContextParam :: "transformerConfig \<Rightarrow> field list \<Rightarrow> field list" where
  "addContextParam cfg fl =
     (case fl of
        [] \<Rightarrow> [Field NoPos [CtxParamName cfg] (TypeIdent (ctxParamTypeWithPkgAlias cfg))]
      | Field q names t # rest \<Rightarrow>
          Field NoPos (if names = [] then [] else [CtxParamName cfg])
                (TypeIdent (ctxParamTypeWithPkgAlias cfg)) # fl)"

text \<open>
  \<open>astutil.Apply(t, cfg.addContextParamApply, nil)\<close>: every parameter list that is
  not inside another parameter list gets the context parameter.
\<close>

fun addContextParamApply :: "transformerConfig \<Rightarrow> typeExpr \<Rightarrow> typeExpr"
and addContextParamApplyField :: "transformerConfig \<Rightarrow> field \<Rightarrow> field" where
  "addContextParamApply cfg (TypeIdent n) = TypeIdent n"
| "addContextParamApply cfg (FuncType params results) =
     FuncType (addContextParam cfg params) (map (addContextParamApplyField cfg) results)"
| "addContextParamApply cfg (CompositeType k ts) = CompositeType k (map (addContextParamApply cfg) ts)"
| "addContextParamApply cfg (FieldsType k fs) = FieldsType k (map (addContextParamApplyField cfg) fs)"
| "addContextParamApplyField cfg (Field q names t) = Field q names (addContextParamApply cfg t)"

definition addContextInitStmt :: "transformerConfig \<Rightarrow> stmt list \<Rightarrow> pos \<Rightarrow> stmt list" where
  "addContextInitStmt cfg stmtsList sigPos =
     AssignStmt (CtxParamName cfg) sigPos (CtxParamInvalid cfg) # stmtsList"

text \<open>The loops of \<open>astRewrite\<close> over the fields of a parameter or method list.\<close>

fun rewriteParamFields :: "transformerConfig \<Rightarrow> field list \<Rightarrow> field list \<times> transformerConfig" where
  "rewriteParamFields cfg [] = ([], cfg)"
| "rewriteParamFields cfg (Field q names t # rest) =
     (if fnParamsVisited cfg (posInCurrentPkg cfg q) = Some True then
        (let (rest', cfg') =
               rewriteParamFields
                 (cfg\<lparr>modified := True, astParamsModifiedNum := astParamsModifiedNum cfg + 1\<rparr>) rest
         in (Field q names (addContextParamApply cfg t) # rest', cfg'))
      else (let (rest', cfg') = rewriteParamFields cfg rest in (Field q names t # rest', cfg')))"

fun rewriteMethodFields ::
  "transformerConfig \<Rightarrow> nat \<Rightarrow> field list \<Rightarrow> field list \<times> transformerConfig" where
  "rewriteMethodFields cfg iface [] = ([], cfg)"
| "rewriteMethodFields cfg iface (Field q names t # rest) =
     (if fnVisited cfg (posInCurrentPkg cfg q) = Some regularFn then
        (let (rest', cfg') =
               rewriteMethodFields
                 (cfg\<lparr>astIfaceModified := insert iface (astIfaceModified cfg), modified := True,
                      ifaceMethodModifiedNum := ifaceMethodModifiedNum cfg + 1\<rparr>) iface rest
         in (Field q names (addContextParamApply cfg t) # rest', cfg'))
      else (let (rest', cfg') = rewriteMethodFields cfg iface rest
            in (Field q names t # rest', cfg')))"

subsection \<open>The rewrite of one node\<close>

fun astRewrite :: "transformerConfig \<Rightarrow> node \<Rightarrow> fatal + node \<times> transformerConfig" where
  "astRewrite cfg (CallNode parent e) =
     (case renameCallSite cfg parent e of
        Inl x \<Rightarrow> Inl x
      | Inr (e1, p, cfg1) \<Rightarrow>
          (case rewriteCallSite cfg1 parent e1 p of
             Inl x \<Rightarrow> Inl x
           | Inr (e2, cfg2) \<Rightarrow> Inr (CallNode parent e2, cfg2)))"
| "astRewrite cfg (FuncDeclType namePos params results) =
     (if fnVisited cfg (posInCurrentPkg cfg namePos) = Some regularFn
      then Inr (FuncDeclType namePos (addContextParam cfg params) results,
                cfg\<lparr>modified := True, astSigsModifiedNum := astSigsModifiedNum cfg + 1\<rparr>)
      else Inr (FuncDeclType namePos params results, cfg))"
| "astRewrite cfg (FuncLitType funcPos params results) =
     (if fnVisited cfg (posInCurrentPkg cfg funcPos) = Some regularFn
      then Inr (FuncLitType funcPos (addContextParam cfg params) results,
                cfg\<lparr>modified := True, astSigsModifiedNum := astSigsModifiedNum cfg + 1\<rparr>)
      else Inr (FuncLitType funcPos params results, cfg))"
| "astRewrite cfg (ParamsList fl) =
     (let (fl', cfg') = rewriteParamFields cfg fl in Inr (ParamsList fl', cfg'))"
| "astRewrite cfg (IfaceMethods iface fl) =
     (let (fl', cfg') = rewriteMethodFields cfg iface fl in Inr (IfaceMethods iface fl', cfg'))"
| "astRewrite cfg (FuncDeclBody namePos body) =
     (if fnVisited cfg (posInCurrentPkg cfg namePos) = Some freshCtxFn then
        (case body of
           None \<Rightarrow> Inl NoBodyFuncDecl
         | Some stmts \<Rightarrow>
             Inr (FuncDeclBody namePos (Some (addContextInitStmt cfg stmts namePos)),
                  cfg\<lparr>modified := True, astDefsModifiedNum := astDefsModifiedNum cfg + 1\<rparr>))
      else Inr (FuncDeclBody namePos body, cfg))"
| "astRewrite cfg (FuncLitBody funcPos body) =
     (if fnVisited cfg (posInCurrentPkg cfg funcPos) = Some freshCtxFn then
        (case body of
           None \<Rightarrow> Inl NoBodyFuncLit
         | Some stmts \<Rightarrow>
             Inr (FuncLitBody funcPos (Some (addContextInitStmt cfg stmts funcPos)),
                  cfg\<lparr>modified := True, astDefsModifiedNum := astDefsModifiedNum cfg + 1\<rparr>))
      else Inr (FuncLitBody funcPos body, cfg))"
| "astRewrite cfg (TypeSpecType namePos t) =
     (if fnVisited cfg (posInCurrentPkg cfg namePos) = Some regularFn
      then Inr (TypeSpecType namePos (addContextParamApply cfg t),
                cfg\<lparr>modified := True, astNamedModifiedNum := astNamedModifiedNum cfg + 1\<rparr>)
      else Inr (TypeSpecType namePos t, cfg))"
| "astRewrite cfg (FieldNode (Field q names t)) =
     (if names = [] \<and> renameParamsVisited cfg (posInCurrentPkg cfg q) = Some True
      then Inr (FieldNode (Field q [CtxParamName cfg] t), cfg)
      else Inr (FieldNode (Field q names t), cfg))"
| "astRewrite cfg (FieldName0 q n) =
     (if renameParamsVisited cfg (posInCurrentPkg cfg q) = Some True
      then Inr (FieldName0 q (CtxParamName cfg), cfg)
      else Inr (FieldName0 q n, cfg))"
| "astRewrite cfg OtherNode = Inr (OtherNode, cfg)"

fun astApply :: "transformerConfig \<Rightarrow> node list \<Rightarrow> fatal + node list \<times> transformerConfig" where
  "astApply cfg [] = Inr ([], cfg)"
| "astApply cfg (n # ns) =
     (case astRewrite cfg n of
        Inl x \<Rightarrow> Inl x
      | Inr (n', cfg1) \<Rightarrow>
          (case astApply cfg1 ns of
             Inl x \<Rightarrow> Inl x
           | Inr (ns', cfg2) \<Rightarrow> Inr (n' # ns', cfg2)))"

subsection \<open>Adding imports\<close>

text \<open>
  \<open>astutil.AddNamedImport\<close> is library code: it adds the import with the given name
  and path if the file has no import specification with this name and this path, and
  says whether it did; \<open>astutil.AddImport\<close> is the same with the empty name. Where in the
  file the new specification goes is not modelled.
\<close>

definition AddNamedImport :: "astFile \<Rightarrow> string \<Rightarrow> string \<Rightarrow> bool \<times> astFile" where
  "AddNamedImport f name path =
     (if (name, path) \<in> set (fileImports f) then (False, f)
      else (True, f\<lparr>fileImports := fileImports f @ [(name, path)]\<rparr>))"

definition AddImport :: "astFile \<Rightarrow> string \<Rightarrow> bool \<times> astFile" where
  "AddImport f path = AddNamedImport f [] path"

fun addNewImports :: "(string \<times> string) list \<Rightarrow> bool \<times> astFile \<Rightarrow> bool \<times> astFile" where
  "addNewImports [] (added, f) = (added, f)"
| "addNewImports ((imp, alias) # rest) (added, f) =
     (let (a, f') = (if alias = [] then AddImport f imp else AddNamedImport f alias imp)
      in addNewImports rest (a \<or> added, f'))"

definition addImports :: "transformerConfig \<Rightarrow> astFile \<Rightarrow> bool \<times> astFile" where
  "addImports cfg f =
     addNewImports (newImports cfg)
       (case existingImports cfg (CtxPkgPath cfg) of
          None \<Rightarrow>
            (if CtxPkgAlias cfg = [] then AddImport f (CtxPkgPath cfg)
             else AddNamedImport f (CtxPkgAlias cfg) (CtxPkgPath cfg))
        | Some a \<Rightarrow> (False, f))"

subsection \<open>The driver\<close>

text \<open>
  The body of the loop of \<open>transform\<close> for one file that has not been seen before:
  the rewritten file, the configuration afterwards, and whether an import was added.
\<close>

definition transformFile ::
  "transformerConfig \<Rightarrow> astFile \<Rightarrow> fatal + astFile \<times> transformerConfig \<times> bool" where
  "transformFile cfg f =
     (let cfg1 = initContextExpressions (computeExistingImports f cfg);
          cfg2 = cfg1\<lparr>newImports := [], modified := False\<rparr>
      in case astApply cfg2 (fileNodes f) of
           Inl x \<Rightarrow> Inl x
         | Inr (nodes', cfg3) \<Rightarrow>
             (let f' = f\<lparr>fileNodes := nodes'\<rparr> in
              if modified cfg3
              then (let (added, f'') = addImports cfg3 f' in Inr (f'', cfg3, added))
              else Inr (f', cfg3, False)))"

text \<open>
  The state of the loops of \<open>transform\<close>: \<open>results\<close> maps a package and a file index
  to the rewritten file.
\<close>

record transformRun =
  tcfg :: transformerConfig
  visitedFiles :: "string set"
  results :: "((nat \<times> nat) \<times> astFile) list"
  importsAdded :: int

fun transformFiles ::
  "package \<Rightarrow> nat \<Rightarrow> astFile list \<Rightarrow> transformRun \<Rightarrow> fatal + transformRun" where
  "transformFiles p ind [] run = Inr run"
| "transformFiles p ind (f # fs) run =
     (if ind \<ge> length (CompiledGoFiles p) then Inl IndexOutOfRange
      else if CompiledGoFiles p ! ind \<in> visitedFiles run then transformFiles p (ind + 1) fs run
      else
        (case transformFile (tcfg run) f of
           Inl x \<Rightarrow> Inl x
         | Inr (f', cfg', added) \<Rightarrow>
             transformFiles p (ind + 1) fs
               (run\<lparr>tcfg := cfg',
                     visitedFiles := insert (CompiledGoFiles p ! ind) (visitedFiles run),
                     results := (if modified cfg'
                                 then AList.update (pkgId (Types p), ind) f' (results run)
                                 else results run),
                     importsAdded := (if added then importsAdded run + 1 else importsAdded run)\<rparr>)))"

fun transformPackages :: "package list \<Rightarrow> transformRun \<Rightarrow> fatal + transformRun" where
  "transformPackages [] run = Inr run"
| "transformPackages (p # ps) run =
     (if isPkgExternal (tcfg run) (PkgPath p) then transformPackages ps run
      else
        (case transformFiles p 0 (Syntax p) (run\<lparr>tcfg := (tcfg run)\<lparr>currentPkg := p\<rparr>\<rparr>) of
           Inl x \<Rightarrow> Inl x
         | Inr run' \<Rightarrow> transformPackages ps run'))"

definition transform ::
  "transformerConfig \<Rightarrow> fatal + ((nat \<times> nat) \<times> astFile) list \<times> transformerConfig" where
  "transform cfg =
     (case transformPackages (initial cfg)
             \<lparr>tcfg = cfg, visitedFiles = {}, results = [], importsAdded = 0\<rparr> of
        Inl x \<Rightarrow> Inl x
      | Inr run \<Rightarrow> Inr (results run, tcfg run))"

section \<open>The analysis phase\<close>

text \<open>
  \<open>analyzerConfig\<close>. \<open>mapAndSliceFuncs\<close> maps a package (or none) to the signatures
  used in its maps, slices and arrays.
\<close>

record analyzerConfig = config +
  prog :: program
  graph :: graph
  mapAndSliceFuncs :: "(nat option \<times> sig list) list"

text \<open>
  A function of the analysis that calls itself through the work list gets a bound
  on the depth of its calls; \<open>None\<close> says that the bound was too small. \<open>Some (Inl e)\<close>
  is a run aborted by \<open>log.Fatalf\<close> or by a panic, \<open>Some (Inr x)\<close> a result.
\<close>

type_synonym 'a result = "(fatal + 'a) option"

definition thenDo :: "'a result \<Rightarrow> ('a \<Rightarrow> 'b result) \<Rightarrow> 'b result" where
  "thenDo m f = (case m of None \<Rightarrow> None | Some (Inl e) \<Rightarrow> Some (Inl e) | Some (Inr x) \<Rightarrow> f x)"

text \<open>A loop over a list whose body may abort the run.\<close>

fun forEach :: "'a list \<Rightarrow> ('a \<Rightarrow> 's \<Rightarrow> fatal + 's) \<Rightarrow> 's \<Rightarrow> fatal + 's" where
  "forEach [] body s = Inr s"
| "forEach (x # xs) body s = (case body x s of Inl e \<Rightarrow> Inl e | Inr s1 \<Rightarrow> forEach xs body s1)"

text \<open>A loop over a list whose body calls a function with a bound.\<close>

fun forEachR :: "'a list \<Rightarrow> ('a \<Rightarrow> 's \<Rightarrow> 's result) \<Rightarrow> 's \<Rightarrow> 's result" where
  "forEachR [] body s = Some (Inr s)"
| "forEachR (x # xs) body s = thenDo (body x s) (forEachR xs body)"

definition getUniquePosSSAFn :: "'a config_scheme \<Rightarrow> ssaFunction \<Rightarrow> pos \<Rightarrow> uniquePosInfo" where
  "getUniquePosSSAFn cfg fn p = getUniquePosPkg cfg (fnPkg fn) p"

definition getUniquePosTypesFn :: "'a config_scheme \<Rightarrow> typesFunc \<Rightarrow> pos \<Rightarrow> uniquePosInfo" where
  "getUniquePosTypesFn cfg fn p = getUniquePosPkg cfg (methPkg fn) p"

subsection \<open>Predicates on signatures and names\<close>

text \<open>
  \<open>isFirstParamContext\<close>: whether the first parameter has the context type or the
  custom context type, its position, the name to use for the context, the name of
  its type, and whether it is the custom context.
\<close>

definition isFirstParamContext ::
  "'a config_scheme \<Rightarrow> sig \<Rightarrow> bool \<times> pos \<times> string \<times> string \<times> bool" where
  "isFirstParamContext cfg sg =
     (case Params sg of
        [] \<Rightarrow> (False, NoPos, CtxParamName cfg, [], False)
      | v # vs \<Rightarrow>
          (let typeName = (case varType v of
                             TNamed i n p q u \<Rightarrow> n
                           | t \<Rightarrow> TypeString pkgPathQualifier t);
               t = getTypeWithPkgFromVar (Some v)
           in if t = ctxParamTypeWithPkgPathName cfg
              then (True, varPos v, varName v, typeName, False)
              else if t = ctxCustomParamTypeWithPkgPathName cfg
              then (True, varPos v,
                    replaceCtxExprWildcard ctxCustomWildcard (CtxCustomExprExtract cfg) (varName v),
                    typeName, True)
              else (False, NoPos, CtxParamName cfg, typeName, False)))"

text \<open>
  The test that \<open>collect\<close>, \<open>collectFnParam\<close> and \<open>insertArtificialCtx\<close> make on a
  signature: the first parameter is a context that needs no new parameter.
\<close>

definition skipContextParam :: "'a config_scheme \<Rightarrow> sig \<Rightarrow> bool" where
  "skipContextParam cfg sg =
     (case isFirstParamContext cfg sg of
        (isParamContext, q, paramName, paramType, custom) \<Rightarrow>
          isParamContext
          \<and> (custom \<or> paramName = ''_'' \<or> paramName = [] \<or> paramName = CtxParamName cfg))"

text \<open>\<open>strconv.ParseInt(s, 8, 32)\<close>: an optional sign and octal digits, within 32 bits.\<close>

definition isOctalDigit :: "char \<Rightarrow> bool" where
  "isOctalDigit c = (48 \<le> (of_char c :: nat) \<and> (of_char c :: nat) \<le> 55)"

definition parseOctal32 :: "string \<Rightarrow> int option" where
  "parseOctal32 s =
     (let neg = (s \<noteq> [] \<and> hd s = CHR ''-'');
          ds = (if s \<noteq> [] \<and> (hd s = CHR ''-'' \<or> hd s = CHR ''+'') then tl s else s);
          v = foldl (\<lambda>a c. 8 * a + (of_char c - 48)) (0::nat) ds
      in if ds = [] \<or> \<not> list_all isOctalDigit ds then None
         else if neg then (if v \<le> 2 ^ 31 then Some (- int v) else None)
         else (if v < 2 ^ 31 then Some (int v) else None))"

definition isInitFuncName :: "string \<Rightarrow> bool" where
  "isInitFuncName n =
     (if \<not> hasPrefix n ''init#'' then False
      else (case parseOctal32 (drop 5 n) of Some i \<Rightarrow> i > 0 | None \<Rightarrow> False))"

definition testingTypeT :: string where "testingTypeT = ''*testing.T''"
definition testingTypeM :: string where "testingTypeM = ''*testing.M''"

text \<open>
  \<open>isTestingInitOrMainFunction\<close>. The fifth byte of a test name must be an
  underscore or must change under \<open>strings.ToLower\<close>; an ASCII byte changes when it
  is an upper-case letter, a byte that is not ASCII always.
\<close>

definition isTestingInitOrMainFunction :: "string \<Rightarrow> sig \<Rightarrow> bool" where
  "isTestingInitOrMainFunction n sg =
     (if (n = ''main'' \<or> isInitFuncName n) \<and> Results sg = [] \<and> Params sg = [] then True
      else if length n < 5 then False
      else if take 4 n \<noteq> ''Test'' then False
      else if n ! 4 \<noteq> CHR ''_''
              \<and> (of_char (n ! 4) :: nat) < 128
              \<and> \<not> (65 \<le> (of_char (n ! 4) :: nat) \<and> (of_char (n ! 4) :: nat) \<le> 90)
           then False
      else (case Params sg of
              [v] \<Rightarrow> (let firstParamType = TypeString pkgPathQualifier (varType v)
                      in firstParamType = testingTypeT
                         \<or> (n = ''TestMain'' \<and> firstParamType = testingTypeM))
            | _ \<Rightarrow> False))"

definition isMapOrSliceSig :: "analyzerConfig \<Rightarrow> typesPackage option \<Rightarrow> sig \<Rightarrow> bool" where
  "isMapOrSliceSig cfg pkg sg =
     (case map_of (mapAndSliceFuncs cfg) (map_option pkgId pkg) of
        None \<Rightarrow> False
      | Some sigs \<Rightarrow> list_ex (\<lambda>mapSig. Identical (prog cfg) sg mapSig) sigs)"

definition isExtReceiver :: "'a config_scheme \<Rightarrow> sig \<Rightarrow> bool" where
  "isExtReceiver cfg sg =
     (case Recv sg of
        None \<Rightarrow> False
      | Some recv \<Rightarrow>
          (case Underlying (case varType recv of TPointer t \<Rightarrow> t | t \<Rightarrow> t) of
             TStruct s fs \<Rightarrow> s \<in> extRecvTypes cfg
           | _ \<Rightarrow> False))"

subsection \<open>Interfaces of a method\<close>

text \<open>
  \<open>getMethodAndInterface\<close>: the method of this name and the interface that declares
  it, which may be embedded.
\<close>

fun getMethodAndInterface :: "string \<Rightarrow> iface \<Rightarrow> (typesFunc \<times> iface) option"
and getMethodInEmbeddeds :: "string \<Rightarrow> goType list \<Rightarrow> (typesFunc \<times> iface) option" where
  "getMethodAndInterface methodName (Iface i ms es) =
     (case find (\<lambda>m. methName m = methodName) ms of
        Some m \<Rightarrow> Some (m, Iface i ms es)
      | None \<Rightarrow> getMethodInEmbeddeds methodName es)"
| "getMethodInEmbeddeds methodName [] = None"
| "getMethodInEmbeddeds methodName (TInterface e # ts) =
     (case getMethodAndInterface methodName e of
        Some r \<Rightarrow> Some r
      | None \<Rightarrow> getMethodInEmbeddeds methodName ts)"
| "getMethodInEmbeddeds methodName (TNamed i n p q (TInterface e) # ts) =
     (case getMethodAndInterface methodName e of
        Some r \<Rightarrow> Some r
      | None \<Rightarrow> getMethodInEmbeddeds methodName ts)"
| "getMethodInEmbeddeds methodName (t # ts) = getMethodInEmbeddeds methodName ts"

text \<open>
  The first loop of \<open>addIfacesModified\<close>, over all interfaces of \<open>cfg.ifaces\<close>: the
  methods and interfaces to modify, or \<open>None\<close> when the method implements an
  interface that is not in \<open>cfg.ifaces\<close>.
\<close>

fun ifacesToModify ::
  "analyzerConfig \<Rightarrow> goType \<Rightarrow> string \<Rightarrow> (iface \<times> typesPackage) list
     \<Rightarrow> (typesFunc \<times> iface) list option" where
  "ifacesToModify cfg recvType fnNm [] = Some []"
| "ifacesToModify cfg recvType fnNm ((i, p) # rest) =
     (if \<not> Implements (prog cfg) recvType i then ifacesToModify cfg recvType fnNm rest
      else (case getMethodAndInterface fnNm i of
              None \<Rightarrow> ifacesToModify cfg recvType fnNm rest
            | Some (m, actualIface) \<Rightarrow>
                if actualIface \<notin> fst ` set (ifaces cfg) then None
                else map_option (\<lambda>r. (m, actualIface) # r)
                       (ifacesToModify cfg recvType fnNm rest)))"

text \<open>\<open>ifaceModified[iface][name] = true\<close>.\<close>

definition addIfaceMethod :: "iface \<Rightarrow> string \<Rightarrow> (iface \<times> string list) list \<Rightarrow> (iface \<times> string list) list" where
  "addIfaceMethod i n m =
     (case map_of m i of
        None \<Rightarrow> m @ [(i, [n])]
      | Some names \<Rightarrow> if n \<in> set names then m else AList.update i (names @ [n]) m)"

definition markIfaceMethod :: "string \<Rightarrow> analyzerConfig \<Rightarrow> typesFunc \<times> iface \<Rightarrow> analyzerConfig" where
  "markIfaceMethod fnNm cfg mi =
     (case mi of (modifiedMethod, modifiedIface) \<Rightarrow>
        cfg\<lparr>fnVisited := (fnVisited cfg)
                (getUniquePosTypesFn cfg modifiedMethod (methPos modifiedMethod) \<mapsto> regularFn),
            ifaceModified := addIfaceMethod modifiedIface fnNm (ifaceModified cfg)\<rparr>)"

definition addIfacesModified ::
  "analyzerConfig \<Rightarrow> sig \<Rightarrow> string \<Rightarrow> string \<Rightarrow> fatal + bool \<times> analyzerConfig" where
  "addIfacesModified cfg sg fnNm fnRecv =
     (if fnRecv = [] then Inr (True, cfg)
      else (case Recv sg of
              None \<Rightarrow> (if ifaces cfg = [] then Inr (True, cfg) else Inl NilDereference)
            | Some recv \<Rightarrow>
                (case ifacesToModify cfg (varType recv) fnNm (ifaces cfg) of
                   None \<Rightarrow> Inr (False, cfg)
                 | Some ms \<Rightarrow> Inr (True, foldl (markIfaceMethod fnNm) cfg ms))))"

subsection \<open>Marking a function for an artificial context\<close>

definition freshCtxMessage :: "string \<Rightarrow> fnType \<Rightarrow> string" where
  "freshCtxMessage name t =
     (if t = containerSig
      then ''WARNING: signature of function '' @ name @ '' is used as used as a type in construction of map or array/slice  (injecting ARTIFICIAL context)''
      else if t = extFn
      then ''WARNING: function '' @ name @ '' is used as parameter by another function from an external package (injecting ARTIFICIAL context)''
      else if t = extPkg
      then ''WARNING: function '' @ name @ '' implements interface from an external package (injecting ARTIFICIAL context)''
      else if t = extRecv
      then ''WARNING: function '' @ name @ '' receiver type embeds another external type (injecting ARTIFICIAL context)''
      else ''WARNING: function '' @ name @ '' is a function used by the test harness (injecting ARTIFICIAL context)'')"

definition markFnAsFreshCtx ::
  "uniquePosInfo \<Rightarrow> string \<Rightarrow> string \<Rightarrow> fnType \<Rightarrow> bool \<Rightarrow> analyzerConfig \<Rightarrow> analyzerConfig" where
  "markFnAsFreshCtx p name pkgPath t exists cfg =
     (if debugLevel cfg > 0 \<and> (\<not> exists \<or> t = extFn) then
        (if isPkgExternal cfg pkgPath then cfg
         else (let cfg1 = writeWarning (fst p) (freshCtxMessage name t) cfg
               in cfg1\<lparr>fnVisited := (fnVisited cfg1)(p \<mapsto> freshCtxFn)\<rparr>))
      else cfg\<lparr>fnVisited := (fnVisited cfg)(p \<mapsto> freshCtxFn)\<rparr>)"

text \<open>
  The calls of \<open>markFnAsFreshCtx\<close> pass \<open>fn.Pkg.Pkg.Path()\<close>, which panics for a
  function without a package.
\<close>

definition markFresh ::
  "ssaFunction \<Rightarrow> uniquePosInfo \<Rightarrow> fnType \<Rightarrow> bool \<Rightarrow> analyzerConfig \<Rightarrow> fatal + analyzerConfig" where
  "markFresh f p t exists cfg =
     (case fnPkg f of
        None \<Rightarrow> Inl NilDereference
      | Some pkg \<Rightarrow> Inr (markFnAsFreshCtx p (fnName f) (Path pkg) t exists cfg))"

definition otherPackageTypeWarning :: "string \<Rightarrow> string \<Rightarrow> 'a config_scheme \<Rightarrow> string" where
  "otherPackageTypeWarning what name cfg =
     ''WARNING: '' @ what @ '' '' @ name @ '' takes the first parameter that is of type ''
       @ CtxParamType cfg @ '' defined in different package than '' @ CtxPkgPath cfg @ ''/''
       @ CtxPkgName cfg"

text \<open>
  The warning about a first parameter whose type has the name of the context type
  but is not the context type; it reads the package of the function, and panics
  if there is none.
\<close>

definition warnOtherPackageType ::
  "bool \<Rightarrow> string \<Rightarrow> ssaFunction \<Rightarrow> pos \<Rightarrow> string \<Rightarrow> analyzerConfig \<Rightarrow> fatal + analyzerConfig" where
  "warnOtherPackageType cond paramType f p msg cfg =
     (if cond \<and> debugLevel cfg > 0 \<and> paramType = CtxParamType cfg then
        (case fnPkg f of
           None \<Rightarrow> Inl NilDereference
         | Some pkg \<Rightarrow> Inr (if \<not> isPkgExternal cfg (Path pkg) then writeWarning p msg cfg else cfg))
      else Inr cfg)"

subsection \<open>Upward propagation\<close>

definition initCallWarning :: "string \<Rightarrow> string" where
  "initCallWarning name =
     ''WARNING: function '' @ name @ '' is called from synthetic package initializer - receives ARTFICIAL context as an argument''"

text \<open>The record that uses the name of an existing context parameter of the caller.\<close>

definition commonReplacementFor :: "'a config_scheme \<Rightarrow> string \<Rightarrow> replacementInfo" where
  "commonReplacementFor cfg paramName =
     \<lparr>newName = newName (commonCallReplacement cfg),
      argPos = argPos (commonCallReplacement cfg),
      ctxImports = ctxImports (commonCallReplacement cfg),
      ctxRegExpr = ctxRegExpr (commonCallReplacement cfg),
      ctxExpr = replaceCtxExprWildcard ctxWildcard (ctxRegExpr (commonCallReplacement cfg)) paramName\<rparr>"

text \<open>The call site of an edge whose caller is the synthetic package initialiser.\<close>

definition recordInitCallSite :: "edge \<Rightarrow> uniquePosInfo \<Rightarrow> analyzerConfig \<Rightarrow> fatal + analyzerConfig" where
  "recordInitCallSite e uniquePos cfg =
     (if debugLevel cfg > 0 \<and> callSites cfg uniquePos \<noteq> Some NilRepl then
        (case fnPkg (nodeFunc (Caller e)) of
           None \<Rightarrow> Inl NilDereference
         | Some pkg \<Rightarrow>
             Inr ((if \<not> isPkgExternal cfg (Path pkg)
                   then writeWarning (edgePos e) (initCallWarning (fnName (nodeFunc (Callee e)))) cfg
                   else cfg)\<lparr>callSites := (callSites cfg)(uniquePos \<mapsto> NilRepl)\<rparr>))
      else Inr (cfg\<lparr>callSites := (callSites cfg)(uniquePos \<mapsto> NilRepl)\<rparr>))"

definition isPropagationStop :: "'a config_scheme \<Rightarrow> ssaFunction \<Rightarrow> typesPackage \<Rightarrow> bool" where
  "isPropagationStop cfg f pkg =
     ((fnName f, getTypeWithPkgFromVar (Recv (fnSignature f)), Path pkg, Name pkg)
        \<in> set (PropagationStops cfg))"

text \<open>
  What \<open>collect\<close> decides for one inbound edge before it calls anything: an edge
  with an invalid position ends the work on the node (the remaining work list is
  processed and \<open>collect\<close> returns); an edge to an anonymous function from another
  scope, and an edge whose call already passes a context, are skipped; a call from
  the synthetic package initialiser gets the artificial context; every other call
  site is recorded and its caller looked at.
\<close>

datatype edgeAction = StopNode | SkipEdge | InitCallSite | Propagate

definition edgeActionOf :: "analyzerConfig \<Rightarrow> nodeRef \<Rightarrow> edge \<Rightarrow> edgeAction" where
  "edgeActionOf cfg n e =
     (if \<not> IsValid (edgePos e) then StopNode
      else if contains (fnName (nodeFunc n)) ''$''
              \<and> fnParent (nodeFunc n) \<noteq> Some (siteParent (Site e))
      then SkipEdge
      else if skipContextParam cfg (callSignature (Site e)) then SkipEdge
      else if fnName (nodeFunc (Caller e)) = ''init'' then InitCallSite
      else Propagate)"

definition edgeUniquePos :: "'a config_scheme \<Rightarrow> edge \<Rightarrow> uniquePosInfo" where
  "edgeUniquePos cfg e = getUniquePosSSAFn cfg (siteParent (Site e)) (edgePos e)"

text \<open>Whether \<open>collect\<close> passes the caller of an edge to \<open>collectFnDef\<close>.\<close>

definition callerToCollect :: "analyzerConfig \<Rightarrow> nodeRef \<Rightarrow> bool" where
  "callerToCollect cfg caller =
     (case fnPkg (nodeFunc caller) of
        None \<Rightarrow> False
      | Some pkg \<Rightarrow> \<not> isPropagationStop cfg (nodeFunc caller) pkg)"

definition recordParamName :: "uniquePosInfo \<Rightarrow> string \<Rightarrow> analyzerConfig \<Rightarrow> analyzerConfig" where
  "recordParamName uniquePos paramName cfg =
     (if paramName \<noteq> CtxParamName cfg
      then cfg\<lparr>callSites := (callSites cfg)
                 (uniquePos \<mapsto> OwnRepl (commonReplacementFor cfg paramName))\<rparr>
      else cfg)"

text \<open>
  What \<open>collectFnParam\<close> decides for an edge: nothing to do, or the parameter through
  which the call is made is recorded (after a possible warning) and the functions
  that may flow through it are collected.
\<close>

definition fnParamAction :: "analyzerConfig \<Rightarrow> edge \<Rightarrow> (fatal + analyzerConfig) option" where
  "fnParamAction cfg e =
     (case callValue (Site e) of
        Parameter pname ppos ptype pparent \<Rightarrow>
          (let uniquePos = getUniquePosSSAFn cfg pparent ppos
           in if fnParamsVisited cfg uniquePos \<noteq> None then None
              else
                (case ptype of
                   TSignature sg \<Rightarrow>
                     if skipContextParam cfg sg then None
                     else
                       (case warnOtherPackageType True
                               (fst (snd (snd (snd (isFirstParamContext cfg sg)))))
                               (nodeFunc (Caller e)) ppos
                               (otherPackageTypeWarning ''argument''
                                  (pname @ '' of type function'') cfg) cfg of
                          Inl x \<Rightarrow> Some (Inl x)
                        | Inr cfg1 \<Rightarrow>
                            Some (Inr (cfg1\<lparr>fnParamsVisited :=
                                              (fnParamsVisited cfg1)(uniquePos \<mapsto> True)\<rparr>)))
                 | _ \<Rightarrow> None))
      | _ \<Rightarrow> None)"

text \<open>
  What \<open>collectFnDef\<close> decides before it classifies: a function with a context
  parameter returns its name (an unnamed one is marked for renaming); a function
  literal whose parent has a node hands over to the parent; a node seen before
  returns the configured name.
\<close>

datatype fnDefAction =
    ReturnName string analyzerConfig
  | ToParent nodeRef string string
  | AlreadyVisited
  | Classify string

definition fnDefActionOf :: "analyzerConfig \<Rightarrow> nodeRef \<Rightarrow> nat set \<Rightarrow> fnDefAction" where
  "fnDefActionOf cfg caller vis =
     (case isFirstParamContext cfg (fnSignature (nodeFunc caller)) of
        (isParamContext, renameParamPos, paramName, paramType, custom) \<Rightarrow>
          if isParamContext then
            (if paramName = ''_'' \<or> paramName = []
             then ReturnName (CtxParamName cfg)
                    (cfg\<lparr>renameParamsVisited := (renameParamsVisited cfg)
                          (getUniquePosSSAFn cfg (nodeFunc caller) renameParamPos \<mapsto> True)\<rparr>)
             else ReturnName paramName cfg)
          else
            (case fnParent (nodeFunc caller) of
               None \<Rightarrow> (if nodeID caller \<in> vis then AlreadyVisited else Classify paramType)
             | Some parent \<Rightarrow>
                 (case nodeOfFunc (graph cfg) parent of
                    Some pn \<Rightarrow> ToParent (refOf pn) (fnName parent)
                                 (getTypeWithPkgFromVar (Recv (fnSignature parent)))
                  | None \<Rightarrow> (if nodeID caller \<in> vis then AlreadyVisited
                             else Classify paramType))))"

text \<open>
  The classification that \<open>collectFnDef\<close> and \<open>insertArtificialCtx\<close> both make of a
  function \<open>f\<close>: whether its signature gets the parameter (\<open>regularFn\<close>), with the
  configuration after the marks. \<open>warn\<close> is the condition under which the function
  may first warn about the type of its first parameter.
\<close>

definition classifyFn ::
  "analyzerConfig \<Rightarrow> ssaFunction \<Rightarrow> string \<Rightarrow> string \<Rightarrow> string \<Rightarrow> bool
     \<Rightarrow> fatal + bool \<times> analyzerConfig" where
  "classifyFn cfg f fnNm fnRecv paramType warnAlways =
     (let uniquePos = getUniquePosSSAFn cfg f (fnPos f);
          exists = (fnVisited cfg uniquePos \<noteq> None);
          t = (case fnVisited cfg uniquePos of Some x \<Rightarrow> x | None \<Rightarrow> regularFn)
      in case warnOtherPackageType (warnAlways \<or> \<not> exists \<or> t = extFn) paramType f (fnPos f)
                (otherPackageTypeWarning ''function'' (fnName f) cfg) cfg of
           Inl x \<Rightarrow> Inl x
         | Inr cfg1 \<Rightarrow>
             if (exists \<and> t \<noteq> regularFn) \<or> isTestingInitOrMainFunction (fnName f) (fnSignature f)
             then map_sum id (Pair False) (markFresh f uniquePos t exists cfg1)
             else if isMapOrSliceSig cfg1 (fnPkg f) (fnSignature f)
             then map_sum id (Pair False) (markFresh f uniquePos containerSig exists cfg1)
             else if isExtReceiver cfg1 (fnSignature f)
             then map_sum id (Pair False) (markFresh f uniquePos extRecv exists cfg1)
             else
               (case addIfacesModified cfg1 (fnSignature f) fnNm fnRecv of
                  Inl x \<Rightarrow> Inl x
                | Inr (modif, cfg2) \<Rightarrow>
                    if modif
                    then Inr (True, cfg2\<lparr>fnVisited := (fnVisited cfg2)(uniquePos \<mapsto> regularFn)\<rparr>)
                    else map_sum id (Pair False) (markFresh f uniquePos extPkg exists cfg2)))"

text \<open>
  \<open>collect\<close>, \<open>collectFnParam\<close> and \<open>collectFnDef\<close> call one another. The work list is a
  slice passed by value; \<open>nodesVisited\<close> is a map shared by all calls and is passed
  along with the configuration. \<open>collectEdges\<close> is the loop of \<open>collect\<close> over the
  inbound edges of the node taken from the work list, \<open>collectOutEdges\<close> the loop of
  \<open>collectFnParam\<close> over the outbound edges of the caller.
\<close>

function collect ::
  "nat \<Rightarrow> nodeRef list \<Rightarrow> nat set \<Rightarrow> analyzerConfig \<Rightarrow> (nat set \<times> analyzerConfig) result"
and collectEdges ::
  "nat \<Rightarrow> nodeRef \<Rightarrow> edge list \<Rightarrow> nodeRef list \<Rightarrow> nat set \<Rightarrow> analyzerConfig
     \<Rightarrow> (nat set \<times> analyzerConfig) result"
and collectFnParam ::
  "nat \<Rightarrow> nodeRef list \<Rightarrow> edge \<Rightarrow> nat set \<Rightarrow> analyzerConfig
     \<Rightarrow> (nat set \<times> analyzerConfig) result"
and collectOutEdges ::
  "nat \<Rightarrow> nodeRef list \<Rightarrow> edge \<Rightarrow> edge list \<Rightarrow> nat set \<Rightarrow> analyzerConfig
     \<Rightarrow> (nat set \<times> analyzerConfig) result"
and collectFnDef ::
  "nat \<Rightarrow> nodeRef list \<Rightarrow> nodeRef \<Rightarrow> string \<Rightarrow> string \<Rightarrow> nat set \<Rightarrow> analyzerConfig
     \<Rightarrow> (string \<times> nat set \<times> analyzerConfig) result" where
  "collect 0 nodesWorkList vis cfg = None"
| "collect (Suc k) nodesWorkList vis cfg =
     (if nodesWorkList = [] then Some (Inr (vis, cfg))
      else collectEdges k (last nodesWorkList) (inEdges (graph cfg) (last nodesWorkList))
             (butlast nodesWorkList) vis cfg)"
| "collectEdges 0 n es nodesWorkList vis cfg = None"
| "collectEdges (Suc k) n [] nodesWorkList vis cfg = collect k nodesWorkList vis cfg"
| "collectEdges (Suc k) n (e # es) nodesWorkList vis cfg =
     (case edgeActionOf cfg n e of
        StopNode \<Rightarrow> collect k nodesWorkList vis cfg
      | SkipEdge \<Rightarrow> collectEdges k n es nodesWorkList vis cfg
      | InitCallSite \<Rightarrow>
          thenDo (Some (recordInitCallSite e (edgeUniquePos cfg e) cfg))
            (\<lambda>cfg1. collectEdges k n es nodesWorkList vis cfg1)
      | Propagate \<Rightarrow>
          thenDo (collectFnParam k nodesWorkList e vis cfg)
            (\<lambda>(vis1, cfg1).
               thenDo
                 (if callerToCollect cfg1 (Caller e)
                  then collectFnDef k nodesWorkList (Caller e) (fnName (nodeFunc (Caller e)))
                         (getTypeWithPkgFromVar (Recv (fnSignature (nodeFunc (Caller e))))) vis1
                         (cfg1\<lparr>callSites := (callSites cfg1)(edgeUniquePos cfg e \<mapsto> CommonRepl)\<rparr>)
                  else Some (Inr (CtxParamName cfg1, vis1,
                         cfg1\<lparr>callSites := (callSites cfg1)(edgeUniquePos cfg e \<mapsto> CommonRepl)\<rparr>)))
                 (\<lambda>(paramName, vis3, cfg3).
                    collectEdges k n es nodesWorkList vis3
                      (recordParamName (edgeUniquePos cfg e) paramName cfg3))))"
| "collectFnParam 0 nodesWorkList e vis cfg = None"
| "collectFnParam (Suc k) nodesWorkList e vis cfg =
     (case fnParamAction cfg e of
        None \<Rightarrow> Some (Inr (vis, cfg))
      | Some (Inl x) \<Rightarrow> Some (Inl x)
      | Some (Inr cfg1) \<Rightarrow>
          collectOutEdges k nodesWorkList e (outEdges (graph cfg1) (Caller e)) vis cfg1)"
| "collectOutEdges 0 nodesWorkList e os vis cfg = None"
| "collectOutEdges (Suc k) nodesWorkList e [] vis cfg = Some (Inr (vis, cfg))"
| "collectOutEdges (Suc k) nodesWorkList e (oe # os) vis cfg =
     (if edgeUniquePos cfg oe = edgeUniquePos cfg e
      then thenDo (collectFnDef k nodesWorkList (Callee oe) (fnName (nodeFunc (Callee oe)))
                     (getTypeWithPkgFromVar (Recv (fnSignature (nodeFunc (Callee oe))))) vis cfg)
             (\<lambda>(paramName, vis1, cfg1). collectOutEdges k nodesWorkList e os vis1 cfg1)
      else collectOutEdges k nodesWorkList e os vis cfg)"
| "collectFnDef 0 nodesWorkList caller fnNm fnRecv vis cfg = None"
| "collectFnDef (Suc k) nodesWorkList caller fnNm fnRecv vis cfg =
     (case fnDefActionOf cfg caller vis of
        ReturnName nm cfg1 \<Rightarrow> Some (Inr (nm, vis, cfg1))
      | ToParent pn nm rv \<Rightarrow> collectFnDef k nodesWorkList pn nm rv vis cfg
      | AlreadyVisited \<Rightarrow> Some (Inr (CtxParamName cfg, vis, cfg))
      | Classify paramType \<Rightarrow>
          thenDo (Some (classifyFn cfg (nodeFunc caller) fnNm fnRecv paramType False))
            (\<lambda>(enqueue, cfg2).
               if enqueue
               then thenDo (collect k (nodesWorkList @ [caller]) (insert (nodeID caller) vis) cfg2)
                      (\<lambda>(vis3, cfg3). Some (Inr (CtxParamName cfg3, vis3, cfg3)))
               else Some (Inr (CtxParamName cfg2, insert (nodeID caller) vis, cfg2))))"
  by pat_completeness auto

termination
  by (relation "measure (\<lambda>x. case x of
         Inl a \<Rightarrow> (case a of Inl p \<Rightarrow> fst p | Inr p \<Rightarrow> fst p)
       | Inr b \<Rightarrow> (case b of Inl p \<Rightarrow> fst p
                  | Inr c \<Rightarrow> (case c of Inl p \<Rightarrow> fst p | Inr p \<Rightarrow> fst p)))") simp_all

subsection \<open>Arguments of a call\<close>

text \<open>
  \<open>getActualCallArg\<close>: the argument at an index, after the receiver of a call that
  is not in invoke mode; an index out of range panics.
\<close>

definition getActualCallArg :: "callSite \<Rightarrow> nat \<Rightarrow> fatal + ssaValue" where
  "getActualCallArg common ind =
     (let i = (if \<not> IsInvoke common \<and> Recv (callSignature common) \<noteq> None then ind + 1 else ind)
      in if i < length (callArgs common) then Inr (callArgs common ! i) else Inl IndexOutOfRange)"

definition getFuncFromArg :: "ssaValue \<Rightarrow> fatal + ssaFunction option" where
  "getFuncFromArg arg =
     (case arg of
        ChangeType x t \<Rightarrow>
          (case x of MakeClosure f \<Rightarrow> Inr (Some f) | Function f \<Rightarrow> Inr (Some f) | _ \<Rightarrow> Inr None)
      | Call sg \<Rightarrow> (if length (Results sg) \<noteq> 1 then Inl MoreThanOneResult else Inr None)
      | Parameter n q t f \<Rightarrow> Inr None
      | UnOp t \<Rightarrow> Inr None
      | Const t \<Rightarrow> Inr None
      | Phi t \<Rightarrow> Inr None
      | Extract t \<Rightarrow> Inr None
      | _ \<Rightarrow> Inl UnrecognizedArgument)"

text \<open>The type of an argument of interface type, as \<open>collectIfaces\<close> determines it.\<close>

definition argumentType :: "ssaValue \<Rightarrow> fatal + goType" where
  "argumentType arg =
     (case arg of
        MakeInterface x t \<Rightarrow> Inr (valueType x)
      | Call sg \<Rightarrow> (case Results sg of [r] \<Rightarrow> Inr (varType r) | _ \<Rightarrow> Inl MoreThanOneResult)
      | Parameter n q t f \<Rightarrow> Inr t
      | UnOp t \<Rightarrow> Inr t
      | Extract t \<Rightarrow> Inr t
      | Phi t \<Rightarrow> Inr t
      | Const t \<Rightarrow> Inr t
      | ChangeType x t \<Rightarrow> Inr t
      | ChangeInterface x t \<Rightarrow> Inr t
      | _ \<Rightarrow> Inl UnrecognizedArgument)"

subsection \<open>Closure over interfaces and named types\<close>

text \<open>
  \<open>getUnmodifiedNamedFunctionType\<close>: the named type and its signature, unless the
  type is not a named function type or is in \<open>namedModified\<close> (kept by identity).
\<close>

definition getUnmodifiedNamedFunctionType :: "goType \<Rightarrow> nat set \<Rightarrow> (goType \<times> sig) option" where
  "getUnmodifiedNamedFunctionType t namedModified =
     (case t of
        TNamed i n p q u \<Rightarrow>
          (case u of
             TSignature sg \<Rightarrow> (if i \<in> namedModified then None else Some (t, sg))
           | _ \<Rightarrow> None)
      | _ \<Rightarrow> None)"

text \<open>The body of the loop of \<open>insertArtificialCtxCallsites\<close> for one inbound edge.\<close>

definition insertArtificialCtxCallsite :: "nat set \<Rightarrow> edge \<Rightarrow> analyzerConfig \<Rightarrow> analyzerConfig" where
  "insertArtificialCtxCallsite namedModified e cfg =
     (let uniquePos = edgeUniquePos cfg e
      in if callSites cfg uniquePos \<noteq> None then cfg
         else if fst (isFirstParamContext cfg (callSignature (Site e))) then cfg
         else
           (case isFirstParamContext cfg (fnSignature (nodeFunc (Caller e))) of
              (isParamContext, renameParamPos, paramName, paramType, custom) \<Rightarrow>
                if isParamContext then
                  (if paramName = ''_'' \<or> paramName = []
                   then cfg\<lparr>callSites := (callSites cfg)(uniquePos \<mapsto> CommonRepl),
                            renameParamsVisited := (renameParamsVisited cfg)
                              (getUniquePosSSAFn cfg (nodeFunc (Caller e)) renameParamPos \<mapsto> True)\<rparr>
                   else if paramName \<noteq> CtxParamName cfg
                   then cfg\<lparr>callSites := (callSites cfg)
                              (uniquePos \<mapsto> OwnRepl (commonReplacementFor cfg paramName))\<rparr>
                   else cfg\<lparr>callSites := (callSites cfg)(uniquePos \<mapsto> CommonRepl)\<rparr>)
                else
                  (case getUnmodifiedNamedFunctionType (valueType (callValue (Site e)))
                          namedModified of
                     None \<Rightarrow> cfg\<lparr>callSites := (callSites cfg)(uniquePos \<mapsto> NilRepl)\<rparr>
                   | Some r \<Rightarrow> cfg)))"

definition insertArtificialCtxCallsites :: "nat set \<Rightarrow> cgNode \<Rightarrow> analyzerConfig \<Rightarrow> analyzerConfig" where
  "insertArtificialCtxCallsites namedModified funNode cfg =
     foldl (\<lambda>c e. insertArtificialCtxCallsite namedModified e c) cfg (In funNode)"

definition insertArtificialCtx :: "nat set \<Rightarrow> ssaFunction \<Rightarrow> analyzerConfig \<Rightarrow> fatal + analyzerConfig" where
  "insertArtificialCtx namedModified f cfg =
     (case isFirstParamContext cfg (fnSignature f) of
        (isParamContext, renameParamPos, paramName, paramType, custom) \<Rightarrow>
          if isParamContext \<and> (paramName = ''_'' \<or> paramName = [])
          then Inr (cfg\<lparr>renameParamsVisited := (renameParamsVisited cfg)
                          (getUniquePosSSAFn cfg f renameParamPos \<mapsto> True)\<rparr>)
          else if skipContextParam cfg (fnSignature f) then Inr cfg
          else
            (case classifyFn cfg f (fnName f) (getTypeWithPkgFromVar (Recv (fnSignature f)))
                    paramType True of
               Inl x \<Rightarrow> Inl x
             | Inr (regular, cfg2) \<Rightarrow>
                 if regular then
                   (case nodeOfFunc (graph cfg2) f of
                      Some funNode \<Rightarrow> Inr (insertArtificialCtxCallsites namedModified funNode cfg2)
                    | None \<Rightarrow> Inr cfg2)
                 else Inr cfg2))"

text \<open>
  The names recorded for an interface in \<open>ifaceModified\<close>, read when they are used:
  the inner maps are shared, so names added during a loop are seen by it.
\<close>

definition modifiedNames :: "'a config_scheme \<Rightarrow> iface \<Rightarrow> string list" where
  "modifiedNames cfg i = (case map_of (ifaceModified cfg) i of Some names \<Rightarrow> names | None \<Rightarrow> [])"

text \<open>
  The first part of the loop body of \<open>collectIfaces\<close> for a method: the interfaces
  are those recorded when the loop over them starts.
\<close>

definition collectIfacesOfMethod :: "nat set \<Rightarrow> ssaFunction \<Rightarrow> analyzerConfig \<Rightarrow> fatal + analyzerConfig" where
  "collectIfacesOfMethod namedModified f cfg =
     (case Recv (fnSignature f) of
        None \<Rightarrow> Inr cfg
      | Some recv \<Rightarrow>
          forEach (map fst (ifaceModified cfg))
            (\<lambda>i c. if Implements (prog c) (varType recv) i \<and> fnName f \<in> set (modifiedNames c i)
                    then insertArtificialCtx namedModified f c else Inr c) cfg)"

text \<open>
  The second part, for one parameter of interface type and one inbound edge: the
  methods of the type of the argument that have a recorded name.
\<close>

definition collectIfacesOfArgument ::
  "nat set \<Rightarrow> iface \<Rightarrow> nat \<Rightarrow> edge \<Rightarrow> analyzerConfig \<Rightarrow> fatal + analyzerConfig" where
  "collectIfacesOfArgument namedModified i ind caller cfg =
     (case getActualCallArg (Site caller) ind of
        Inl x \<Rightarrow> Inl x
      | Inr arg \<Rightarrow>
          (case argumentType arg of
             Inl x \<Rightarrow> Inl x
           | Inr argType \<Rightarrow>
               forEach (MethodSet (prog cfg) argType)
                 (\<lambda>(name, methodValue) c.
                    if name \<in> set (modifiedNames c i)
                    then (case methodValue of
                            Some fn \<Rightarrow> insertArtificialCtx namedModified fn c
                          | None \<Rightarrow> Inr c)
                    else Inr c) cfg))"

definition collectIfacesOfParam ::
  "nat set \<Rightarrow> cgNode \<Rightarrow> nat \<times> var \<Rightarrow> analyzerConfig \<Rightarrow> fatal + analyzerConfig" where
  "collectIfacesOfParam namedModified n ip cfg =
     (case ip of (ind, p) \<Rightarrow>
        (case Underlying (varType p) of
           TInterface i \<Rightarrow>
             (if map_of (ifaceModified cfg) i = None then Inr cfg
              else forEach (In n) (collectIfacesOfArgument namedModified i ind) cfg)
         | _ \<Rightarrow> Inr cfg))"

definition collectIfacesOfNode :: "nat set \<Rightarrow> cgNode \<Rightarrow> analyzerConfig \<Rightarrow> fatal + analyzerConfig" where
  "collectIfacesOfNode namedModified n cfg =
     (case collectIfacesOfMethod namedModified (Func n) cfg of
        Inl x \<Rightarrow> Inl x
      | Inr cfg1 \<Rightarrow>
          forEach (enumerate 0 (Params (fnSignature (Func n))))
            (collectIfacesOfParam namedModified n) cfg1)"

text \<open>
  The merge at the end of \<open>collectIfaces\<close>, of a map of new interfaces and names
  into \<open>ifaceModified\<close>; it says whether anything was added.
\<close>

fun mergeIfaceModified ::
  "(iface \<times> string list) list \<Rightarrow> bool \<times> analyzerConfig \<Rightarrow> bool \<times> analyzerConfig" where
  "mergeIfaceModified [] (added, cfg) = (added, cfg)"
| "mergeIfaceModified ((ifaceNew, funcNamesNew) # rest) (added, cfg) =
     (case map_of (ifaceModified cfg) ifaceNew of
        None \<Rightarrow>
          mergeIfaceModified rest
            (True, cfg\<lparr>ifaceModified := ifaceModified cfg @ [(ifaceNew, funcNamesNew)]\<rparr>)
      | Some funcs \<Rightarrow>
          mergeIfaceModified rest
            (added \<or> list_ex (\<lambda>name. name \<notin> set funcs) funcNamesNew,
             cfg\<lparr>ifaceModified :=
                   AList.update ifaceNew
                     (funcs @ filter (\<lambda>name. name \<notin> set funcs) (remdups funcNamesNew))
                     (ifaceModified cfg)\<rparr>))"

text \<open>
  \<open>collectIfaces\<close>. The map \<open>ifaceModifiedNew\<close> is created empty and nothing is put
  into it before it is merged.
\<close>

definition collectIfaces :: "nat set \<Rightarrow> analyzerConfig \<Rightarrow> fatal + bool \<times> analyzerConfig" where
  "collectIfaces namedModified cfg =
     (let ifaceModifiedNew = []
      in case forEach (Nodes (graph cfg)) (collectIfacesOfNode namedModified) cfg of
           Inl x \<Rightarrow> Inl x
         | Inr cfg1 \<Rightarrow> Inr (mergeIfaceModified ifaceModifiedNew (False, cfg1)))"

text \<open>
  The first loop of \<open>collectNamedTypes\<close>, for one parameter of a node and one
  inbound edge: a named function type through which a function with a class
  other than \<open>extFn\<close> is passed is marked, and noted in \<open>namedModifiedNew\<close>.
\<close>

definition discoverNamedOfArgument ::
  "goType \<Rightarrow> nat \<Rightarrow> edge \<Rightarrow> nat set \<times> analyzerConfig \<Rightarrow> fatal + nat set \<times> analyzerConfig" where
  "discoverNamedOfArgument named ind caller st =
     (case st of (namedModifiedNew, cfg) \<Rightarrow>
        (case getActualCallArg (Site caller) ind of
           Inl x \<Rightarrow> Inl x
         | Inr arg \<Rightarrow>
             (case getFuncFromArg arg of
                Inl x \<Rightarrow> Inl x
              | Inr None \<Rightarrow> Inr st
              | Inr (Some argFun) \<Rightarrow>
                  (case fnVisited cfg (getUniquePosSSAFn cfg argFun (fnPos argFun)) of
                     None \<Rightarrow> Inr st
                   | Some t \<Rightarrow>
                       if t = extFn then Inr st
                       else
                         (case named of
                            TNamed i n p q u \<Rightarrow>
                              Inr (insert i namedModifiedNew,
                                   cfg\<lparr>fnVisited := (fnVisited cfg)
                                         (getUniquePosPkg cfg p q \<mapsto> regularFn)\<rparr>)
                          | _ \<Rightarrow> Inr st)))))"

definition discoverNamedOfParam ::
  "nat set \<Rightarrow> cgNode \<Rightarrow> nat \<times> var \<Rightarrow> nat set \<times> analyzerConfig
     \<Rightarrow> fatal + nat set \<times> analyzerConfig" where
  "discoverNamedOfParam namedModified n ip st =
     (case ip of (ind, p) \<Rightarrow>
        (case getUnmodifiedNamedFunctionType (varType p) namedModified of
           None \<Rightarrow> Inr st
         | Some (namedUnmodified, sg) \<Rightarrow>
             if fst (isFirstParamContext (snd st) sg) then Inr st
             else forEach (In n) (discoverNamedOfArgument namedUnmodified ind) st))"

definition discoverNamed ::
  "nat set \<Rightarrow> analyzerConfig \<Rightarrow> fatal + nat set \<times> analyzerConfig" where
  "discoverNamed namedModified cfg =
     forEach (Nodes (graph cfg))
       (\<lambda>n. forEach (enumerate 0 (Params (fnSignature (Func n))))
               (discoverNamedOfParam namedModified n))
       ({}, cfg)"

text \<open>
  The second loop: the functions passed through a parameter of a type found by the
  first loop.
\<close>

definition modifyPassedOfArgument ::
  "nat set \<Rightarrow> nat \<Rightarrow> edge \<Rightarrow> analyzerConfig \<Rightarrow> fatal + analyzerConfig" where
  "modifyPassedOfArgument namedModified ind caller cfg =
     (case getActualCallArg (Site caller) ind of
        Inl x \<Rightarrow> Inl x
      | Inr arg \<Rightarrow>
          (case getFuncFromArg arg of
             Inl x \<Rightarrow> Inl x
           | Inr None \<Rightarrow> Inr cfg
           | Inr (Some fn) \<Rightarrow> insertArtificialCtx namedModified fn cfg))"

definition modifyPassedOfParam ::
  "nat set \<Rightarrow> nat set \<Rightarrow> cgNode \<Rightarrow> nat \<times> var \<Rightarrow> analyzerConfig \<Rightarrow> fatal + analyzerConfig" where
  "modifyPassedOfParam namedModified namedModifiedNew n ip cfg =
     (case ip of (ind, p) \<Rightarrow>
        (case varType p of
           TNamed i nm pk q u \<Rightarrow>
             (if i \<in> namedModifiedNew
              then forEach (In n) (modifyPassedOfArgument namedModified ind) cfg
              else Inr cfg)
         | _ \<Rightarrow> Inr cfg))"

definition modifyPassed ::
  "nat set \<Rightarrow> nat set \<Rightarrow> analyzerConfig \<Rightarrow> fatal + analyzerConfig" where
  "modifyPassed namedModified namedModifiedNew cfg =
     forEach (Nodes (graph cfg))
       (\<lambda>n. forEach (enumerate 0 (Params (fnSignature (Func n))))
               (modifyPassedOfParam namedModified namedModifiedNew n))
       cfg"

text \<open>\<open>collectNamedTypes\<close>: the loop ends when the first part finds no new named type.\<close>

fun collectNamedTypes ::
  "nat \<Rightarrow> nat set \<Rightarrow> analyzerConfig \<Rightarrow> (nat set \<times> analyzerConfig) result" where
  "collectNamedTypes 0 namedModified cfg = None"
| "collectNamedTypes (Suc k) namedModified cfg =
     (case discoverNamed namedModified cfg of
        Inl x \<Rightarrow> Some (Inl x)
      | Inr (namedModifiedNew, cfg1) \<Rightarrow>
          if namedModifiedNew = {} then Some (Inr (namedModified, cfg1))
          else
            (case modifyPassed namedModified namedModifiedNew cfg1 of
               Inl x \<Rightarrow> Some (Inl x)
             | Inr cfg2 \<Rightarrow> collectNamedTypes k (namedModified \<union> namedModifiedNew) cfg2))"

text \<open>
  The loop of \<open>analyze\<close> over \<open>collectIfaces\<close> and \<open>collectNamedTypes\<close>, which runs
  while \<open>added\<close> is true; \<open>added\<close> is true at the start.
\<close>

fun closureLoop ::
  "nat \<Rightarrow> bool \<Rightarrow> nat set \<Rightarrow> analyzerConfig \<Rightarrow> (nat set \<times> analyzerConfig) result" where
  "closureLoop 0 added namedModified cfg = None"
| "closureLoop (Suc k) added namedModified cfg =
     (if \<not> added then Some (Inr (namedModified, cfg))
      else
        (case collectIfaces namedModified cfg of
           Inl x \<Rightarrow> Some (Inl x)
         | Inr (added1, cfg1) \<Rightarrow>
             thenDo (collectNamedTypes k namedModified cfg1)
               (\<lambda>(namedModified1, cfg2). closureLoop k added1 namedModified1 cfg2)))"

text \<open>One further full pass of \<open>collectIfaces\<close> and \<open>collectNamedTypes\<close>.\<close>

definition closurePass ::
  "nat \<Rightarrow> nat set \<Rightarrow> analyzerConfig \<Rightarrow> (nat set \<times> analyzerConfig) result" where
  "closurePass k namedModified cfg =
     (case collectIfaces namedModified cfg of
        Inl x \<Rightarrow> Some (Inl x)
      | Inr (added1, cfg1) \<Rightarrow> collectNamedTypes k namedModified cfg1)"

subsection \<open>Leaf calls\<close>

text \<open>
  \<open>renameCall\<close> with the closure \<open>doRename\<close> of \<open>processLeafCalls\<close>: whether the call is
  made through a literal, and the configuration with the call site renamed when the
  called function is the leaf function and the record has a new name.
\<close>

definition doRename ::
  "uniquePosInfo \<Rightarrow> string \<Rightarrow> string \<Rightarrow> replacementInfo
     \<Rightarrow> string \<Rightarrow> string \<Rightarrow> string \<Rightarrow> string \<Rightarrow> analyzerConfig \<Rightarrow> analyzerConfig" where
  "doRename uniquePos libFnName libFnRecvType callReplacement pkgPath pkgNm recvType fnNm cfg =
     (if pkgPath = LibPkgPath cfg \<and> pkgNm = LibPkgName cfg \<and> recvType = libFnRecvType
         \<and> fnNm = libFnName \<and> newName callReplacement \<noteq> []
      then cfg\<lparr>callSitesRenamed := (callSitesRenamed cfg)(uniquePos \<mapsto> newName callReplacement)\<rparr>
      else cfg)"

definition renameCall ::
  "callSite \<Rightarrow> (string \<Rightarrow> string \<Rightarrow> string \<Rightarrow> string \<Rightarrow> analyzerConfig \<Rightarrow> analyzerConfig)
     \<Rightarrow> analyzerConfig \<Rightarrow> fatal + bool \<times> analyzerConfig" where
  "renameCall call rename cfg =
     (case callMethod call of
        Some m \<Rightarrow>
          (case methPkg m of
             None \<Rightarrow> Inl NilDereference
           | Some pkg \<Rightarrow>
               Inr (True, rename (Path pkg) (Name pkg)
                            (getTypeWithPkgFromVar (Recv (callSignature call))) (methName m) cfg))
      | None \<Rightarrow>
          (case (case callValue call of
                   MakeClosure f \<Rightarrow> Some f
                 | Function f \<Rightarrow> Some f
                 | _ \<Rightarrow> None) of
             None \<Rightarrow> Inr (False, cfg)
           | Some f \<Rightarrow>
               (case fnPkg f of
                  None \<Rightarrow> Inl NilDereference
                | Some pkg \<Rightarrow>
                    Inr (True, rename (Path pkg) (Name pkg)
                                 (getTypeWithPkgFromVar (Recv (fnSignature f))) (fnName f) cfg))))"

text \<open>The body of the loop of \<open>processLeafCalls\<close> over the inbound edges of a leaf.\<close>

definition leafCallSite ::
  "nat \<Rightarrow> string \<Rightarrow> string \<Rightarrow> replacementInfo \<Rightarrow> edge \<Rightarrow> nat set \<times> analyzerConfig
     \<Rightarrow> (nat set \<times> analyzerConfig) result" where
  "leafCallSite k libFnName libFnRecvType callReplacement e st =
     (case st of (vis, cfg) \<Rightarrow>
        (let uniquePos = edgeUniquePos cfg e
         in case renameCall (Site e)
                   (doRename uniquePos libFnName libFnRecvType callReplacement) cfg of
              Inl x \<Rightarrow> Some (Inl x)
            | Inr (calledViaLiteral, cfg1) \<Rightarrow>
                if \<not> calledViaLiteral then Some (Inr (vis, cfg1))
                else
                  thenDo (collectFnDef k [] (Caller e) (fnName (nodeFunc (Caller e)))
                            (getTypeWithPkgFromVar (Recv (fnSignature (nodeFunc (Caller e)))))
                            vis cfg1)
                    (\<lambda>(paramName, vis2, cfg2).
                       Some (Inr (vis2,
                         cfg2\<lparr>callSites := (callSites cfg2)
                           (uniquePos \<mapsto>
                              OwnRepl (if paramName = CtxParamName cfg2 then callReplacement
                                       else callReplacement
                                              \<lparr>ctxExpr := replaceCtxExprWildcard ctxWildcard
                                                  (ctxRegExpr callReplacement) paramName\<rparr>))\<rparr>)))))"

definition leafInterfaceWarning :: "string \<Rightarrow> 'a config_scheme \<Rightarrow> string" where
  "leafInterfaceWarning name cfg =
     ''WARNING: function '' @ name @ '' implements library interface '' @ LibIface cfg
       @ '' and, consequently, receives context parameter but may in fact not use context''"

text \<open>The body of the loop over \<open>LibFns\<close>, for one node and one leaf name.\<close>

definition leafOfNode ::
  "nat \<Rightarrow> cgNode \<Rightarrow> string \<times> (string \<times> replacementInfo) list \<Rightarrow> nat set \<times> analyzerConfig
     \<Rightarrow> (nat set \<times> analyzerConfig) result" where
  "leafOfNode k n lib st =
     (case lib of (libFnName, recvs) \<Rightarrow>
        (let f = Func n; cfg0 = snd st
         in if fnName f \<noteq> libFnName then Some (Inr st)
            else if libIfaces cfg0 \<noteq> [] then
              (case Recv (fnSignature f) of
                 None \<Rightarrow> Some (Inr st)
               | Some recv \<Rightarrow>
                   if (case varPkg recv of None \<Rightarrow> False | Some p \<Rightarrow> isPkgExternal cfg0 (Path p))
                   then Some (Inr st)
                   else
                     forEachR (libIfaces cfg0)
                       (\<lambda>li (vis, cfg).
                          if Implements (prog cfg) (varType recv) li
                          then thenDo (collectFnDef k [] (refOf n) (fnName f)
                                         (getTypeWithPkgFromVar (Some recv)) vis
                                         (writeWarning (fnPos f) (leafInterfaceWarning (fnName f) cfg) cfg))
                                 (\<lambda>(paramName, vis1, cfg1). Some (Inr (vis1, cfg1)))
                          else Some (Inr (vis, cfg))) st)
            else
              forEachR recvs
                (\<lambda>(recv, callReplacement) st1.
                   (case fnPkg f of
                      None \<Rightarrow> Some (Inr st1)
                    | Some pkg \<Rightarrow>
                        if Path pkg \<noteq> LibPkgPath (snd st1) \<or> Name pkg \<noteq> LibPkgName (snd st1)
                        then Some (Inr st1)
                        else if getTypeWithPkgFromVar (Recv (fnSignature f)) \<noteq> recv
                        then Some (Inr st1)
                        else forEachR (In n)
                               (leafCallSite k libFnName
                                  (getTypeWithPkgFromVar (Recv (fnSignature f))) callReplacement)
                               st1)) st))"

text \<open>
  \<open>processLeafCalls\<close>. The work list it returns is the empty list it starts with:
  \<open>collectFnDef\<close> appends to its own copy.
\<close>

definition processLeafCalls ::
  "nat \<Rightarrow> analyzerConfig \<Rightarrow> (nodeRef list \<times> nat set \<times> analyzerConfig) result" where
  "processLeafCalls k cfg =
     thenDo (forEachR (Nodes (graph cfg))
               (\<lambda>n st. forEachR (LibFns (snd st)) (leafOfNode k n) st) ({}, cfg))
       (\<lambda>(vis, cfg1). Some (Inr ([], vis, cfg1)))"

subsection \<open>The preliminary scans\<close>

text \<open>
  \<open>collectInterfacesAndThirdPartyEmbeds\<close>, for one name of the scope of a package:
  an interface is noted with its package (and as a library interface when it is
  the configured one); a struct that embeds a configured external type is noted.
\<close>

definition embedsExternal :: "'a config_scheme \<Rightarrow> bool \<times> goType \<Rightarrow> fatal + bool" where
  "embedsExternal cfg fld =
     (case fld of (embedded, t) \<Rightarrow>
        if \<not> embedded then Inr False
        else
          (case t of
             TNamed i n p q u \<Rightarrow>
               (if n \<notin> fst ` set (ExtEmbedTypes cfg) then Inr False
                else (case p of
                        None \<Rightarrow> Inl NilDereference
                      | Some pkg \<Rightarrow> Inr ((n, Path pkg, Name pkg) \<in> set (ExtEmbedTypes cfg))))
           | _ \<Rightarrow> Inr False))"

definition scanScopeName ::
  "package \<Rightarrow> string \<times> goType \<Rightarrow> analyzerConfig \<Rightarrow> fatal + analyzerConfig" where
  "scanScopeName pkg entry cfg =
     (case entry of (name, t) \<Rightarrow>
        (let cfg1 = (case Underlying t of
                       TInterface i \<Rightarrow>
                         (let c = cfg\<lparr>ifaces := AList.update i (Types pkg) (ifaces cfg)\<rparr>
                          in if PkgPath pkg = LibPkgPath c \<and> PkgName pkg = LibPkgName c
                                \<and> name = LibIface c
                             then c\<lparr>libIfaces := libIfaces c @ [i]\<rparr> else c)
                     | _ \<Rightarrow> cfg)
         in case Underlying t of
              TStruct s flds \<Rightarrow>
                forEach flds
                  (\<lambda>fld c. case embedsExternal c fld of
                              Inl x \<Rightarrow> Inl x
                            | Inr b \<Rightarrow> Inr (if b then c\<lparr>extRecvTypes := insert s (extRecvTypes c)\<rparr>
                                             else c)) cfg1
            | _ \<Rightarrow> Inr cfg1))"

definition collectInterfacesAndThirdPartyEmbeds :: "analyzerConfig \<Rightarrow> fatal + analyzerConfig" where
  "collectInterfacesAndThirdPartyEmbeds cfg =
     forEach (initial cfg) (\<lambda>pkg. forEach (Scope pkg) (scanScopeName pkg))
       (cfg\<lparr>ifaces := [], extRecvTypes := {}\<rparr>)"

text \<open>\<open>mapSigToPkg\<close> and \<open>addCollectionFn\<close>.\<close>

definition mapSigToPkg ::
  "nat option \<Rightarrow> sig \<Rightarrow> (nat option \<times> sig list) list \<Rightarrow> (nat option \<times> sig list) list" where
  "mapSigToPkg pkg sg sigMap =
     (case map_of sigMap pkg of
        None \<Rightarrow> sigMap @ [(pkg, [sg])]
      | Some sigs \<Rightarrow> if sg \<in> set sigs then sigMap else AList.update pkg (sigs @ [sg]) sigMap)"

definition addCollectionFn :: "ssaFunction \<Rightarrow> goType \<Rightarrow> analyzerConfig \<Rightarrow> analyzerConfig" where
  "addCollectionFn parent t cfg =
     (case Underlying t of
        TSignature sg \<Rightarrow>
          cfg\<lparr>mapAndSliceFuncs := mapSigToPkg (map_option pkgId (fnPkg parent)) sg (mapAndSliceFuncs cfg)\<rparr>
      | _ \<Rightarrow> cfg)"

text \<open>All methods of a type get the class \<open>extFn\<close>.\<close>

definition markMethodsExternal :: "goType \<Rightarrow> analyzerConfig \<Rightarrow> analyzerConfig" where
  "markMethodsExternal t cfg =
     foldl (\<lambda>c sel. case snd sel of
                       Some fn \<Rightarrow> c\<lparr>fnVisited := (fnVisited c)
                                       (getUniquePosSSAFn c fn (fnPos fn) \<mapsto> extFn)\<rparr>
                     | None \<Rightarrow> c)
       cfg (MethodSet (prog cfg) t)"

text \<open>
  \<open>collectCollectionFnsAndMarkExternalInterfaceFns\<close>, for one instruction of the
  function \<open>f\<close>. The type assertions that the code says never fail panic when they do.
\<close>

definition scanInstruction :: "ssaFunction \<Rightarrow> ssaInstr \<Rightarrow> analyzerConfig \<Rightarrow> fatal + analyzerConfig" where
  "scanInstruction f inst cfg =
     (case inst of
        Instr (MakeMap t) \<Rightarrow>
          (case Underlying t of
             TMap k v \<Rightarrow> Inr (addCollectionFn f v (addCollectionFn f k cfg))
           | _ \<Rightarrow> Inl NilDereference)
      | Instr (MakeSlice t) \<Rightarrow>
          (case t of
             TSlice el \<Rightarrow> Inr (addCollectionFn f el cfg)
           | _ \<Rightarrow> Inl NilDereference)
      | Instr (Alloc i t) \<Rightarrow>
          (case Underlying t of
             TPointer elType \<Rightarrow>
               (case elType of
                  TSlice el \<Rightarrow> Inr (addCollectionFn f el cfg)
                | TArray n el \<Rightarrow> Inr (addCollectionFn f el cfg)
                | _ \<Rightarrow> Inr cfg)
           | _ \<Rightarrow> Inl NilDereference)
      | Instr (MakeInterface x t) \<Rightarrow>
          (case t of
             TNamed i n p q u \<Rightarrow>
               Inr (foldl (\<lambda>c pkgPath.
                             case p of
                               None \<Rightarrow> c
                             | Some pkg \<Rightarrow>
                                 if hasPrefix (Path pkg) pkgPath
                                 then markMethodsExternal (valueType x) c else c)
                      cfg (ExtPkgPaths cfg))
           | _ \<Rightarrow> Inr cfg)
      | _ \<Rightarrow> Inr cfg)"

definition collectCollectionFnsAndMarkExternalInterfaceFns ::
  "analyzerConfig \<Rightarrow> fatal + analyzerConfig" where
  "collectCollectionFnsAndMarkExternalInterfaceFns cfg =
     forEach (Nodes (graph cfg))
       (\<lambda>n c. if fnPkg (Func n) \<noteq> None \<and> Blocks (prog c) (Func n) = [] then Inr c
               else forEach (concat (Blocks (prog c) (Func n))) (scanInstruction (Func n)) c)
       cfg"

text \<open>\<open>markParamAsExternalFn\<close>.\<close>

definition markParamAsExternalFn :: "ssaValue \<Rightarrow> analyzerConfig \<Rightarrow> analyzerConfig" where
  "markParamAsExternalFn arg cfg =
     (case (case arg of
              MakeClosure f \<Rightarrow> Some f
            | MakeInterface x t \<Rightarrow> (case x of Function f \<Rightarrow> Some f | _ \<Rightarrow> None)
            | Function f \<Rightarrow> Some f
            | _ \<Rightarrow> None) of
        None \<Rightarrow> cfg
      | Some extFun \<Rightarrow>
          cfg\<lparr>fnVisited := (fnVisited cfg)(getUniquePosSSAFn cfg extFun (fnPos extFun) \<mapsto> extFn)\<rparr>)"

text \<open>
  The values stored into the array behind a variadic argument: after every
  \<open>IndexAddr\<close> into that array, the next instruction, when it is a conversion, gives
  one value. An \<open>IndexAddr\<close> at the end of the block panics.
\<close>

fun storedValues :: "ssaValue \<Rightarrow> ssaInstr list \<Rightarrow> fatal + ssaValue list" where
  "storedValues x [] = Inr []"
| "storedValues x (Instr (IndexAddr y) # rest) =
     (if y \<noteq> x then storedValues x rest
      else (case rest of
              [] \<Rightarrow> Inl IndexOutOfRange
            | conv # others \<Rightarrow>
                (case storedValues x rest of
                   Inl e \<Rightarrow> Inl e
                 | Inr vs \<Rightarrow>
                     Inr ((case conv of
                             Instr (ChangeType v t) \<Rightarrow> [v]
                           | Instr (ChangeInterface v t) \<Rightarrow> [v]
                           | Instr (MakeInterface v t) \<Rightarrow> [v]
                           | Instr (Convert v t) \<Rightarrow> [v]
                           | _ \<Rightarrow> []) @ vs))))"
| "storedValues x (i # rest) = storedValues x rest"

definition getVarArgs :: "callSite \<Rightarrow> nat \<Rightarrow> fatal + ssaValue list" where
  "getVarArgs common lastInd =
     (case getActualCallArg common lastInd of
        Inl e \<Rightarrow> Inl e
      | Inr arg \<Rightarrow>
          (case arg of
             Slice x t instrs \<Rightarrow> storedValues x instrs
           | _ \<Rightarrow> Inr []))"

text \<open>\<open>markExternalParamFns\<close>, for one node and one external package path.\<close>

definition markExternalParamsOfNode :: "cgNode \<Rightarrow> string \<Rightarrow> analyzerConfig \<Rightarrow> fatal + analyzerConfig" where
  "markExternalParamsOfNode n pkgPath cfg =
     (case fnPkg (Func n) of
        None \<Rightarrow> Inr cfg
      | Some pkg \<Rightarrow>
          if \<not> hasPrefix (Path pkg) pkgPath then Inr cfg
          else
            (let params = Params (fnSignature (Func n))
             in case forEach (enumerate 0 params)
                       (\<lambda>(i, p) c.
                          (case varType p of
                             TSignature sg \<Rightarrow>
                               forEach (In n)
                                 (\<lambda>caller c1. map_sum id (\<lambda>arg. markParamAsExternalFn arg c1)
                                                 (getActualCallArg (Site caller) i)) c
                           | TInterface ifc \<Rightarrow>
                               forEach (In n)
                                 (\<lambda>caller c1. map_sum id (\<lambda>arg. markParamAsExternalFn arg c1)
                                                 (getActualCallArg (Site caller) i)) c
                           | _ \<Rightarrow> Inr c)) cfg of
                  Inl e \<Rightarrow> Inl e
                | Inr cfg1 \<Rightarrow>
                    if params \<noteq> [] \<and> Variadic (fnSignature (Func n)) then
                      forEach (In n)
                        (\<lambda>caller c.
                           map_sum id (\<lambda>varArgs. foldl (\<lambda>c1 arg. markParamAsExternalFn arg c1) c varArgs)
                             (getVarArgs (Site caller) (length params - 1))) cfg1
                    else Inr cfg1))"

definition markExternalParamFns :: "analyzerConfig \<Rightarrow> fatal + analyzerConfig" where
  "markExternalParamFns cfg =
     forEach (Nodes (graph cfg))
       (\<lambda>n. forEach (ExtPkgPaths cfg) (markExternalParamsOfNode n)) cfg"

subsection \<open>The driver of the analysis\<close>

definition prescan :: "analyzerConfig \<Rightarrow> fatal + analyzerConfig" where
  "prescan cfg =
     (case collectInterfacesAndThirdPartyEmbeds cfg of
        Inl e \<Rightarrow> Inl e
      | Inr cfg1 \<Rightarrow>
          (case collectCollectionFnsAndMarkExternalInterfaceFns cfg1 of
             Inl e \<Rightarrow> Inl e
           | Inr cfg2 \<Rightarrow> markExternalParamFns cfg2))"

definition analyze :: "nat \<Rightarrow> analyzerConfig \<Rightarrow> analyzerConfig result" where
  "analyze k cfg =
     thenDo (Some (prescan cfg))
       (\<lambda>cfg1. thenDo (processLeafCalls k cfg1)
          (\<lambda>(nodesWorkList, nodesVisited, cfg2).
             thenDo (collect k nodesWorkList nodesVisited cfg2)
               (\<lambda>(vis3, cfg3).
                  thenDo (closureLoop k True {} cfg3)
                    (\<lambda>(namedModified, cfg4). Some (Inr cfg4)))))"

section \<open>Concrete configurations and inputs\<close>

text \<open>
  A configuration in the style of the repository's tests: the context type is
  \<open>lib.Context\<close>, the parameter is called \<open>ctx\<close>, the artificial context is
  \<open>Background()\<close>; the debug level is \<open>0\<close>, as in \<open>propagate_test.go\<close>.
  \<open>commonCallReplacement\<close> and the qualified type are what \<open>initialize\<close> computes.
\<close>

definition testConfig :: config where
  "testConfig =
     \<lparr>CtxPkgPath = ''lib'', CtxPkgName = ''lib'', CtxPkgAlias = [], CtxParamName = ''ctx'',
      CtxParamType = ''Context'', CtxParamInvalid = ''Background()'',
      LibPkgPath = ''lib'', LibPkgName = ''lib'', LibIface = [],
      CtxCustomPkgPath = [], CtxCustomPkgName = [], CtxCustomParamType = [],
      CtxCustomExprExtract = [], ExtPkgPaths = [], ExtEmbedTypes = [], LibFns = [],
      PropagationStops = [], debugLevel = 0, Warnings = [],
      commonCallReplacement =
        \<lparr>newName = [], argPos = 1, ctxImports = [], ctxRegExpr = [], ctxExpr = ''ctx''\<rparr>,
      nilCallReplacement =
        \<lparr>newName = [], argPos = 0, ctxImports = [], ctxRegExpr = [], ctxExpr = []\<rparr>,
      ctxParamTypeWithPkgAlias = [], ctxParamTypeWithPkgPathName = ''liblib.Context'',
      ctxCustomParamTypeWithPkgPathName = [], libIfaces = [], ifaces = [],
      extRecvTypes = {}, fsets = Map.empty, largeCode = False, initial = [],
      fnVisited = Map.empty, callSites = Map.empty, callSitesRenamed = Map.empty,
      ifaceModified = [], fnParamsVisited = Map.empty, renameParamsVisited = Map.empty\<rparr>"

definition testPackage :: package where
  "testPackage =
     \<lparr>PkgPath = ''test'', PkgName = ''test'',
      Types = \<lparr>pkgId = 1, Path = ''test'', Name = ''test''\<rparr>,
      Scope = [], Syntax = [], CompiledGoFiles = []\<rparr>"

text \<open>The transformer as \<open>propagate\<close> creates it, here already inside \<open>testPackage\<close>.\<close>

definition newTransformer :: "config \<Rightarrow> transformerConfig" where
  "newTransformer cfg =
     config.extend cfg
       (transformerConfig.fields testPackage Map.empty [] False {} 0 0 0 0 0 0)"

definition recordAt :: "int \<Rightarrow> (string \<times> string) list \<Rightarrow> replacementInfo" where
  "recordAt n imps = \<lparr>newName = [], argPos = n, ctxImports = imps, ctxRegExpr = [], ctxExpr = []\<rparr>"

text \<open>One call site, at position \<open>5\<close>, with a record of its own.\<close>

definition siteConfig :: "replacementInfo \<Rightarrow> transformerConfig" where
  "siteConfig r = (newTransformer testConfig)\<lparr>callSites := [(5, None) \<mapsto> OwnRepl r]\<rparr>"

text \<open>
  Two files of one run that import the context package \<open>lib\<close> under different names;
  each declares one function that the analysis classified as \<open>regularFn\<close>.
\<close>

definition twoFilesConfig :: transformerConfig where
  "twoFilesConfig =
     (newTransformer testConfig)\<lparr>fnVisited := [(10, None) \<mapsto> regularFn, (20, None) \<mapsto> regularFn]\<rparr>"

definition fileA :: astFile where
  "fileA = \<lparr>fileImports = [(''ctxa'', ''lib'')], fileNodes = [FuncDeclType 10 [] []]\<rparr>"

definition fileB :: astFile where
  "fileB = \<lparr>fileImports = [(''ctxb'', ''lib'')], fileNodes = [FuncDeclType 20 [] []]\<rparr>"

definition afterFileA :: transformerConfig where
  "afterFileA =
     (initContextExpressions (computeExistingImports fileA twoFilesConfig))
       \<lparr>newImports := [], modified := True, astSigsModifiedNum := 1\<rparr>"

definition afterFileB :: transformerConfig where
  "afterFileB =
     (initContextExpressions (computeExistingImports fileB afterFileA))
       \<lparr>newImports := [], modified := True, astSigsModifiedNum := 2\<rparr>"

text \<open>
  A run whose context package is \<open>context\<close>. The caller of the call at position \<open>5\<close>
  has a first parameter \<open>cc\<close> of the custom context type, from which the analysis
  derived the context expression \<open>cc.Ctx()\<close> for the call site. The file imports the
  custom context package and the library, not \<open>context\<close>.
\<close>

definition customCtxConfig :: transformerConfig where
  "customCtxConfig =
     (newTransformer (testConfig\<lparr>CtxPkgPath := ''context'', CtxPkgName := ''context''\<rparr>))
       \<lparr>callSites := [(5, None) \<mapsto>
          OwnRepl \<lparr>newName = [], argPos = 1, ctxImports = [], ctxRegExpr = [],
                   ctxExpr = ''cc.Ctx()''\<rparr>]\<rparr>"

definition customCtxFile :: astFile where
  "customCtxFile =
     \<lparr>fileImports = [([], ''custom''), ([], ''lib'')],
      fileNodes = [CallNode ParentOther
                     (CallExpr (SelectorExpr (Ident ''lib'') ''A'') 5 [Ident ''x''])]\<rparr>"

definition afterCustomCtxFile :: transformerConfig where
  "afterCustomCtxFile =
     (initContextExpressions (computeExistingImports customCtxFile customCtxConfig))
       \<lparr>newImports := [], modified := True, astCallsModifiedNum := 1\<rparr>"

text \<open>
  The call \<open>f()()\<close>: the inner call, at position \<open>5\<close>, is the callee of the outer
  call at position \<open>7\<close>; the nodes are in the order of the traversal.
\<close>

definition calleeCallNodes :: "node list" where
  "calleeCallNodes =
     [CallNode ParentCallExpr (CallExpr (Ident ''f'') 5 []),
      CallNode ParentOther (CallExpr (CallExpr (Ident ''f'') 5 []) 7 [])]"

subsection \<open>A program with three interfaces\<close>

text \<open>
  Package \<open>test\<close> declares the interfaces \<open>I1 {m; a}\<close>, \<open>I2 {m; b}\<close>, \<open>I3 {m; c}\<close> and the
  types \<open>R\<close> (methods \<open>m\<close>, \<open>a\<close>), \<open>T1\<close> (methods \<open>m\<close>, \<open>a\<close>, \<open>b\<close>) and \<open>T2\<close> (methods \<open>m\<close>,
  \<open>b\<close>, \<open>c\<close>): \<open>R\<close> implements \<open>I1\<close>, \<open>T1\<close> implements \<open>I1\<close> and \<open>I2\<close>, \<open>T2\<close> implements \<open>I2\<close>
  and \<open>I3\<close>. \<open>R.m\<close> calls the leaf function \<open>lib.A\<close>, which the configuration renames
  to \<open>CtxA\<close>. The call graph lists the nodes in the order \<open>T2.m\<close>, \<open>T1.m\<close>, \<open>R.m\<close>,
  \<open>lib.A\<close>.
\<close>

definition testTypes :: typesPackage where
  "testTypes = \<lparr>pkgId = 1, Path = ''test'', Name = ''test''\<rparr>"

definition libTypes :: typesPackage where
  "libTypes = \<lparr>pkgId = 2, Path = ''lib'', Name = ''lib''\<rparr>"

definition ifaceMethod :: "string \<Rightarrow> pos \<Rightarrow> typesFunc" where
  "ifaceMethod n p = \<lparr>methName = n, methPos = p, methPkg = Some testTypes\<rparr>"

definition I1 :: iface where "I1 = Iface 1 [ifaceMethod ''m'' 101, ifaceMethod ''a'' 102] []"
definition I2 :: iface where "I2 = Iface 2 [ifaceMethod ''m'' 201, ifaceMethod ''b'' 202] []"
definition I3 :: iface where "I3 = Iface 3 [ifaceMethod ''m'' 301, ifaceMethod ''c'' 302] []"

definition structType :: "nat \<Rightarrow> string \<Rightarrow> goType" where
  "structType i n = TNamed i n (Some testTypes) (100 + 10 * i) (TStruct i [])"

definition methodM :: "nat \<Rightarrow> string \<Rightarrow> ssaFunction" where
  "methodM i n =
     SsaFunction i ''m'' (101 + 10 * i) (Some testTypes)
       (Sig (Some (Var ''r'' (100 + 10 * i) (structType i n) (Some testTypes))) [] [] False) None"

definition leafA :: ssaFunction where
  "leafA = SsaFunction 4 ''A'' 400 (Some libTypes) (Sig None [] [] False) None"

definition callOfA :: edge where
  "callOfA =
     \<lparr>Caller = \<lparr>nodeFunc = methodM 1 ''R'', nodeID = 1\<rparr>,
      Site = \<lparr>sitePos = 115, siteParent = methodM 1 ''R'', callValue = Function leafA,
              callMethod = None, callArgs = [], callSignature = fnSignature leafA\<rparr>,
      Callee = \<lparr>nodeFunc = leafA, nodeID = 4\<rparr>\<rparr>"

definition chainGraph :: graph where
  "chainGraph =
     \<lparr>Nodes =
        [\<lparr>Func = methodM 3 ''T2'', ID = 3, In = [], Out = []\<rparr>,
         \<lparr>Func = methodM 2 ''T1'', ID = 2, In = [], Out = []\<rparr>,
         \<lparr>Func = methodM 1 ''R'', ID = 1, In = [], Out = [callOfA]\<rparr>,
         \<lparr>Func = leafA, ID = 4, In = [callOfA], Out = []\<rparr>]\<rparr>"

definition chainImplements :: "goType \<Rightarrow> iface \<Rightarrow> bool" where
  "chainImplements t i =
     ((t = structType 1 ''R'' \<and> i = I1)
      \<or> (t = structType 2 ''T1'' \<and> (i = I1 \<or> i = I2))
      \<or> (t = structType 3 ''T2'' \<and> (i = I2 \<or> i = I3)))"

definition chainProgram :: program where
  "chainProgram =
     \<lparr>Implements = chainImplements, MethodSet = (\<lambda>t. []), Identical = (\<lambda>a b. a = b),
      Blocks = (\<lambda>f. [])\<rparr>"

definition chainPackage :: package where
  "chainPackage =
     \<lparr>PkgPath = ''test'', PkgName = ''test'', Types = testTypes,
      Scope = [(''I1'', TNamed 21 ''I1'' (Some testTypes) 100 (TInterface I1)),
               (''I2'', TNamed 22 ''I2'' (Some testTypes) 200 (TInterface I2)),
               (''I3'', TNamed 23 ''I3'' (Some testTypes) 300 (TInterface I3)),
               (''R'', structType 1 ''R''), (''T1'', structType 2 ''T1''),
               (''T2'', structType 3 ''T2'')],
      Syntax = [], CompiledGoFiles = []\<rparr>"

definition newAnalyzer :: "config \<Rightarrow> program \<Rightarrow> graph \<Rightarrow> analyzerConfig" where
  "newAnalyzer cfg p g = config.extend cfg (analyzerConfig.fields p g [])"

definition chainConfig :: analyzerConfig where
  "chainConfig =
     newAnalyzer
       (testConfig\<lparr>LibFns := [(''A'', [([], (recordAt 1 [])\<lparr>newName := ''CtxA''\<rparr>)])],
                   initial := [chainPackage]\<rparr>)
       chainProgram chainGraph"

text \<open>The interfaces recorded in \<open>ifaceModified\<close> at the end of a run, by their numbers.\<close>

definition modifiedInterfaces :: "analyzerConfig result \<Rightarrow> nat list result" where
  "modifiedInterfaces r = thenDo r (\<lambda>c. Some (Inr (map (\<lambda>x. ifaceId (fst x)) (ifaceModified c))))"

definition furtherPass :: "nat \<Rightarrow> analyzerConfig result \<Rightarrow> analyzerConfig result" where
  "furtherPass k r = thenDo r (\<lambda>c. thenDo (closurePass k {} c) (\<lambda>(nm, c1). Some (Inr c1)))"

subsection \<open>A function with several callers\<close>

text \<open>
  Functions of package \<open>test\<close> without receiver: \<open>F\<close> calls the leaf \<open>lib.A\<close> and is
  called by \<open>H\<close> (at position \<open>1110\<close>), by \<open>G\<close> through an edge without a position, and
  by \<open>K\<close> (at position \<open>1310\<close>), whose first parameter is the context.
\<close>

definition contextType :: goType where
  "contextType = TNamed 50 ''Context'' (Some libTypes) 500 (TInterface (Iface 50 [] []))"

definition plainFunc :: "nat \<Rightarrow> string \<Rightarrow> pos \<Rightarrow> ssaFunction" where
  "plainFunc i n p = SsaFunction i n p (Some testTypes) (Sig None [] [] False) None"

definition contextFunc :: "nat \<Rightarrow> string \<Rightarrow> pos \<Rightarrow> string \<Rightarrow> ssaFunction" where
  "contextFunc i n p v =
     SsaFunction i n p (Some testTypes)
       (Sig None [Var v (p + 1) contextType (Some testTypes)] [] False) None"

definition callEdge :: "ssaFunction \<Rightarrow> pos \<Rightarrow> ssaFunction \<Rightarrow> edge" where
  "callEdge caller p callee =
     \<lparr>Caller = \<lparr>nodeFunc = caller, nodeID = fnId caller\<rparr>,
      Site = \<lparr>sitePos = p, siteParent = caller, callValue = Function callee,
              callMethod = None, callArgs = [], callSignature = fnSignature callee\<rparr>,
      Callee = \<lparr>nodeFunc = callee, nodeID = fnId callee\<rparr>\<rparr>"

definition funF :: ssaFunction where "funF = plainFunc 10 ''F'' 1000"
definition funH :: ssaFunction where "funH = plainFunc 11 ''H'' 1100"
definition funG :: ssaFunction where "funG = plainFunc 12 ''G'' 1200"
definition funK :: ssaFunction where "funK = contextFunc 13 ''K'' 1300 ''ctx''"

definition edgeHF :: edge where "edgeHF = callEdge funH 1110 funF"
definition edgeGF :: edge where "edgeGF = callEdge funG NoPos funF"
definition edgeKF :: edge where "edgeKF = callEdge funK 1310 funF"
definition edgeFA :: edge where "edgeFA = callEdge funF 1010 leafA"

definition callersGraph :: "edge list \<Rightarrow> graph" where
  "callersGraph es =
     \<lparr>Nodes =
        [\<lparr>Func = funF, ID = 10, In = es, Out = [edgeFA]\<rparr>,
         \<lparr>Func = funH, ID = 11, In = [], Out = [edgeHF]\<rparr>,
         \<lparr>Func = funG, ID = 12, In = [], Out = [edgeGF]\<rparr>,
         \<lparr>Func = funK, ID = 13, In = [], Out = [edgeKF]\<rparr>,
         \<lparr>Func = leafA, ID = 4, In = [edgeFA], Out = []\<rparr>]\<rparr>"

definition plainProgram :: program where
  "plainProgram =
     \<lparr>Implements = (\<lambda>t i. False), MethodSet = (\<lambda>t. []), Identical = (\<lambda>a b. a = b),
      Blocks = (\<lambda>f. [])\<rparr>"

definition callersConfig :: "edge list \<Rightarrow> analyzerConfig" where
  "callersConfig es =
     newAnalyzer (testConfig\<lparr>LibFns := [(''A'', [([], recordAt 1 [])])]\<rparr>)
       plainProgram (callersGraph es)"

text \<open>What a run of \<open>collect\<close> recorded for a call site, and how it classified a function.\<close>

definition siteAfter ::
  "(nat set \<times> analyzerConfig) result \<Rightarrow> pos \<Rightarrow> replRef option result" where
  "siteAfter r p = thenDo r (\<lambda>(vis, c). Some (Inr (callSites c (p, None))))"

definition classAfter ::
  "(nat set \<times> analyzerConfig) result \<Rightarrow> pos \<Rightarrow> fnType option result" where
  "classAfter r p = thenDo r (\<lambda>(vis, c). Some (Inr (fnVisited c (p, None))))"

definition visitedAfter :: "(nat set \<times> analyzerConfig) result \<Rightarrow> nat set result" where
  "visitedAfter r = thenDo r (\<lambda>(vis, c). Some (Inr vis))"

section \<open>Relations between configurations used in the proofs\<close>

text \<open>
  The fields that \<open>astRewrite\<close> writes are the scratch fields of the current file,
  the counters, the set of rewritten interfaces and the warnings. A configuration
  with these fields cleared is all that the rewrite of a node leaves as it was.
\<close>

definition clearScratch :: "transformerConfig \<Rightarrow> transformerConfig" where
  "clearScratch c =
     c\<lparr>Warnings := [], newImports := [], modified := False, astIfaceModified := {},
       ifaceMethodModifiedNum := 0, astNamedModifiedNum := 0, astParamsModifiedNum := 0,
       astCallsModifiedNum := 0, astSigsModifiedNum := 0, astDefsModifiedNum := 0\<rparr>"

definition sameShared :: "transformerConfig \<Rightarrow> transformerConfig \<Rightarrow> bool" where
  "sameShared c c' = (clearScratch c' = clearScratch c)"

text \<open>
  The decision tables of the analysis, and the configuration that is fixed before
  the rewrite starts (every option but \<open>CtxParamInvalid\<close>, and what \<open>initialize\<close> and
  the loader derive from the options).
\<close>

definition decisionTables ::
  "'a config_scheme \<Rightarrow>
     (uniquePosInfo \<rightharpoonup> fnType) \<times> (uniquePosInfo \<rightharpoonup> replRef) \<times> (uniquePosInfo \<rightharpoonup> string)
       \<times> (iface \<times> string list) list \<times> (uniquePosInfo \<rightharpoonup> bool) \<times> (uniquePosInfo \<rightharpoonup> bool)" where
  "decisionTables c =
     (fnVisited c, callSites c, callSitesRenamed c, ifaceModified c, fnParamsVisited c,
      renameParamsVisited c)"

definition fixedConfiguration :: "transformerConfig \<Rightarrow> config" where
  "fixedConfiguration c =
     (config.truncate c)\<lparr>Warnings := [], CtxParamInvalid := [], ctxParamTypeWithPkgAlias := [],
        nilCallReplacement :=
          \<lparr>newName = [], argPos = 0, ctxImports = [], ctxRegExpr = [], ctxExpr = []\<rparr>\<rparr>"


text \<open>The import specification (name and path) that an entry of \<open>newImports\<close> asks for.\<close>

definition importSpec :: "string \<times> string \<Rightarrow> string \<times> string" where
  "importSpec = (\<lambda>(imp, alias). (alias, imp))"

text \<open>
  After the preliminary scans the analysis writes the decision tables and the
  warnings, and nothing else of the configuration.
\<close>

definition clearTables :: "analyzerConfig \<Rightarrow> analyzerConfig" where
  "clearTables c =
     c\<lparr>Warnings := [], fnVisited := Map.empty, callSites := Map.empty,
       callSitesRenamed := Map.empty, ifaceModified := [], fnParamsVisited := Map.empty,
       renameParamsVisited := Map.empty\<rparr>"

definition sameProgram :: "analyzerConfig \<Rightarrow> analyzerConfig \<Rightarrow> bool" where
  "sameProgram c c' = (clearTables c' = clearTables c)"

section \<open>Properties of the call-site rewrite\<close>

lemmas example_defs = siteConfig_def recordAt_def newTransformer_def testConfig_def
  testPackage_def config.defs transformerConfig.defs

lemmas call_defs = rewriteCallSite_def posInCurrentPkg_def getUniquePosPkg_def
  rewriteNoArgCall_def deref_def ctxArgument_def getCtxExprAndAddImports_def
  replaceCtxExprWildcard_def resolveCtxExprPackageWildcard_def ctxWildcard_def
  ctxPrefWildcard_def hasPrefix_def writeWarning_def

lemmas file_defs = transformFile_def computeExistingImports_def importsOf_def initContextExpressions_def
  addImports_def AddImport_def AddNamedImport_def addContextParam_def NoPos_def renameCallSite_def callSitePos_def

subsection \<open>Which fatal errors the context expression can raise\<close>

lemma ctxImportsLoop_fatal:
  "ctxImportsLoop ex e imps ni = Inl x \<Longrightarrow> x = AliasPlaceholderWithoutAlias"
  by (induction ex e imps ni rule: ctxImportsLoop.induct) (auto split: option.splits if_splits)



text \<open>
  C10. A record with more than one additional import makes the injection of the
  context expression abort with the fatal error about custom imports, at every call
  site that uses the record; with no or one import this fatal error never occurs.
\<close>

theorem getCtxExprAndAddImports_too_many_imports:
  "((getCtxExprAndAddImports cfg existing newImps r = Inl TooManyCustomImports)
      = (1 < length (ctxImports r)))
   \<and> ((ctxArgument tc r = Inl TooManyCustomImports) = (1 < length (ctxImports r)))"
proof -
  have loop: "ctxImportsLoop ex e imps ni \<noteq> Inl TooManyCustomImports" for ex e imps ni
    using ctxImportsLoop_fatal by fastforce
  have a: "(getCtxExprAndAddImports cfg existing newImps r = Inl TooManyCustomImports)
             = (1 < length (ctxImports r))"
    by (auto simp: getCtxExprAndAddImports_def loop)
  have b: "(getCtxExprAndAddImports tc (existingImports tc) (newImports tc) r
              = Inl TooManyCustomImports) = (1 < length (ctxImports r))"
    by (auto simp: getCtxExprAndAddImports_def loop)
  have c: "(ctxArgument tc r = Inl TooManyCustomImports) = (1 < length (ctxImports r))"
    using b by (auto simp: ctxArgument_def split: sum.splits)
  from a c show ?thesis by blast
qed

theorem getCtxExprAndAddImports_too_many_imports_witness:
  "getCtxExprAndAddImports testConfig Map.empty [] (recordAt 1 [(''a'', []), (''b'', [])])
     = Inl TooManyCustomImports
   \<and> ctxArgument (newTransformer testConfig) (recordAt 1 [(''a'', []), (''b'', [])])
       = Inl TooManyCustomImports
   \<and> getCtxExprAndAddImports testConfig Map.empty [] (recordAt 1 [(''a'', [])])
       = Inr (''ctx'', [(''a'', [])])"
proof -
  have "getCtxExprAndAddImports testConfig Map.empty [] (recordAt 1 [(''a'', [])])
          = Inr (''ctx'', [(''a'', [])])"
    by (simp add: example_defs call_defs aliasWildCard_def)
  moreover have "1 < length (ctxImports (recordAt 1 [(''a'', []), (''b'', [])]))"
    by (simp add: recordAt_def)
  ultimately show ?thesis
    using getCtxExprAndAddImports_too_many_imports
            [of testConfig Map.empty "[]" "recordAt 1 [(''a'', []), (''b'', [])]"
                "newTransformer testConfig"]
    by simp
qed

subsection \<open>What the rewrite of a call leaves alone\<close>

lemma sameShared_refl: "sameShared c c"
  by (simp add: sameShared_def)

lemma sameShared_trans: "sameShared a b \<Longrightarrow> sameShared b c \<Longrightarrow> sameShared a c"
  by (simp add: sameShared_def)

lemma clearScratch_fields:
  "callSites (clearScratch c) = callSites c"
  "existingImports (clearScratch c) = existingImports c"
  "currentPkg (clearScratch c) = currentPkg c"
  "commonCallReplacement (clearScratch c) = commonCallReplacement c"
  "nilCallReplacement (clearScratch c) = nilCallReplacement c"
  "CtxPkgPath (clearScratch c) = CtxPkgPath c"
  "CtxPkgAlias (clearScratch c) = CtxPkgAlias c"
  "CtxPkgName (clearScratch c) = CtxPkgName c"
  "CtxParamName (clearScratch c) = CtxParamName c"
  "CtxParamType (clearScratch c) = CtxParamType c"
  "CtxParamInvalid (clearScratch c) = CtxParamInvalid c"
  "ctxParamTypeWithPkgAlias (clearScratch c) = ctxParamTypeWithPkgAlias c"
  "debugLevel (clearScratch c) = debugLevel c"
  "largeCode (clearScratch c) = largeCode c"
  "fsets (clearScratch c) = fsets c"
  "decisionTables (clearScratch c) = decisionTables c"
  "fixedConfiguration (clearScratch c) = fixedConfiguration c"
  by (simp_all add: clearScratch_def decisionTables_def fixedConfiguration_def config.defs)

lemma sameShared_fields:
  assumes "sameShared c c'"
  shows "callSites c' = callSites c"
    and "existingImports c' = existingImports c"
    and "currentPkg c' = currentPkg c"
    and "commonCallReplacement c' = commonCallReplacement c"
    and "nilCallReplacement c' = nilCallReplacement c"
    and "CtxPkgPath c' = CtxPkgPath c"
    and "CtxPkgAlias c' = CtxPkgAlias c"
    and "CtxPkgName c' = CtxPkgName c"
    and "CtxParamName c' = CtxParamName c"
    and "CtxParamType c' = CtxParamType c"
    and "CtxParamInvalid c' = CtxParamInvalid c"
    and "ctxParamTypeWithPkgAlias c' = ctxParamTypeWithPkgAlias c"
    and "debugLevel c' = debugLevel c"
    and "largeCode c' = largeCode c"
    and "fsets c' = fsets c"
    and "decisionTables c' = decisionTables c"
    and "fixedConfiguration c' = fixedConfiguration c"
  using assms clearScratch_fields[of c] clearScratch_fields[of c']
  by (simp_all add: sameShared_def)

lemma sameShared_warning: "sameShared c (writeWarning p m c)"
  by (simp add: sameShared_def clearScratch_def writeWarning_def)

lemma sameShared_ctxArgument: "ctxArgument cfg r = Inr (a, cfg') \<Longrightarrow> sameShared cfg cfg'"
  by (auto simp: ctxArgument_def sameShared_def clearScratch_def split: sum.splits)

lemma sameShared_counted: "sameShared c (c\<lparr>modified := True, astCallsModifiedNum := n\<rparr>)"
  by (simp add: sameShared_def clearScratch_def)


lemma posInCurrentPkg_sameShared:
  "sameShared c c' \<Longrightarrow> posInCurrentPkg c' p = posInCurrentPkg c p"
  by (simp add: sameShared_fields posInCurrentPkg_def getUniquePosPkg_def)

lemma rewriteNoArgCall_frame:
  assumes "rewriteNoArgCall cfg p a = Inr (a', cfg')"
  shows "sameShared cfg cfg'"
proof (cases a)
  case (CallExpr fn lparen args)
  show ?thesis
  proof (cases "args \<noteq> [] \<or> callSites cfg (posInCurrentPkg cfg lparen) = None")
    case True
    with assms CallExpr have "cfg' = cfg"
      by (auto simp: rewriteNoArgCall_def split: if_splits)
    then show ?thesis by (simp add: sameShared_refl)
  next
    case False
    then obtain r where r: "args = []" "callSites cfg (posInCurrentPkg cfg lparen) = Some r"
      by auto
    define cfg1 where
      "cfg1 = (if argPos (deref cfg r) \<noteq> 1 then writeWarning p paramLessWarning cfg else cfg)"
    have s1: "sameShared cfg cfg1"
      by (simp add: cfg1_def sameShared_refl sameShared_warning)
    from assms CallExpr r obtain arg cfg2 where
      c2: "ctxArgument cfg1 (deref cfg r) = Inr (arg, cfg2)"
      and c': "cfg' = cfg2\<lparr>modified := True, astCallsModifiedNum := astCallsModifiedNum cfg2 + 1\<rparr>"
      by (auto simp: rewriteNoArgCall_def Let_def cfg1_def split: sum.splits)
    from sameShared_ctxArgument[OF c2] have s2: "sameShared cfg1 cfg2" .
    have s3: "sameShared cfg2 cfg'" unfolding c' by (rule sameShared_counted)
    from s1 s2 s3 show ?thesis by (blast intro: sameShared_trans)
  qed
qed (use assms in \<open>auto simp: rewriteNoArgCall_def sameShared_refl\<close>)

lemma rewriteNoArgCalls_frame:
  "rewriteNoArgCalls cfg p as = Inr (as', cfg')
     \<Longrightarrow> length as' = length as \<and> sameShared cfg cfg'"
proof (induction as arbitrary: cfg as' cfg')
  case Nil
  then show ?case by (simp add: sameShared_refl)
next
  case (Cons a rest)
  from Cons.prems obtain a' cfg1 rest' where
    a: "rewriteNoArgCall cfg p a = Inr (a', cfg1)"
    and r: "rewriteNoArgCalls cfg1 p rest = Inr (rest', cfg')" and as': "as' = a' # rest'"
    by (auto split: sum.splits)
  from Cons.IH[OF r] rewriteNoArgCall_frame[OF a] as' show ?case
    by (auto intro: sameShared_trans)
qed







text \<open>
  A call without arguments that is the callee of another call, as \<open>f()\<close> in \<open>f()()\<close>,
  is in neither of the two cases: its parent is a call expression, and the loop of
  the outer call looks at the arguments only. Its record is not applied.
\<close>

lemma recorded_callee_call_not_rewritten:
  "callSites (siteConfig (recordAt 1 [])) (posInCurrentPkg (siteConfig (recordAt 1 [])) 5)
      = Some (OwnRepl (recordAt 1 []))
   \<and> astApply (siteConfig (recordAt 1 [])) calleeCallNodes
       = Inr (calleeCallNodes, siteConfig (recordAt 1 []))"
  by (simp add: calleeCallNodes_def example_defs call_defs file_defs Let_def)

section \<open>What the rewrite of a file leaves alone\<close>

lemma renameCallSite_frame:
  "renameCallSite cfg parent e = Inr (e', p, cfg') \<Longrightarrow> sameShared cfg cfg'"
  by (auto simp: renameCallSite_def Let_def sameShared_def clearScratch_def
           split: expr.splits option.splits)

lemma rewriteCallSite_frame:
  assumes "rewriteCallSite cfg parent e p = Inr (e', cfg')"
  shows "sameShared cfg cfg'"
proof (cases e)
  case (CallExpr fn lparen args)
  let ?u = "posInCurrentPkg cfg p"
  show ?thesis
  proof (cases "parent \<noteq> ParentCallExpr \<and> args = []")
    case True
    show ?thesis
    proof (cases "callSites cfg ?u")
      case None
      with assms CallExpr True show ?thesis by (simp add: rewriteCallSite_def sameShared_refl)
    next
      case (Some r)
      define cfg1 where
        "cfg1 = (if argPos (deref cfg r) \<noteq> 1 then writeWarning p paramLessWarning cfg else cfg)"
      have s1: "sameShared cfg cfg1" by (simp add: cfg1_def sameShared_refl sameShared_warning)
      from assms CallExpr True Some obtain arg cfg2 where
        c2: "ctxArgument cfg1 (deref cfg r) = Inr (arg, cfg2)"
        and c': "cfg' = cfg2\<lparr>modified := True, astCallsModifiedNum := astCallsModifiedNum cfg2 + 1\<rparr>"
        by (auto simp: rewriteCallSite_def Let_def cfg1_def split: sum.splits)
      from s1 sameShared_ctxArgument[OF c2] sameShared_counted[of cfg2] show ?thesis
        unfolding c' by (blast intro: sameShared_trans)
    qed
  next
    case False
    show ?thesis
    proof (cases "args = []")
      case True
      with assms CallExpr False show ?thesis by (simp add: rewriteCallSite_def sameShared_refl)
    next
      case ne: False
      from assms CallExpr False ne obtain args1 cfg1 where
        n: "rewriteNoArgCalls cfg p args = Inr (args1, cfg1)"
        by (auto simp: rewriteCallSite_def Let_def split: sum.splits)
      from rewriteNoArgCalls_frame[OF n] have s1: "sameShared cfg cfg1" by simp
      show ?thesis
      proof (cases "callSites cfg1 ?u")
        case None
        with assms CallExpr False ne n have "cfg' = cfg1"
          by (simp add: rewriteCallSite_def Let_def)
        with s1 show ?thesis by simp
      next
        case (Some r)
        from assms CallExpr False ne n Some obtain arg cfg2 where
          c2: "ctxArgument cfg1 (deref cfg1 r) = Inr (arg, cfg2)"
          and c': "cfg' = cfg2\<lparr>modified := True, astCallsModifiedNum := astCallsModifiedNum cfg2 + 1\<rparr>"
          by (auto simp: rewriteCallSite_def Let_def split: sum.splits if_splits)
        from s1 sameShared_ctxArgument[OF c2] sameShared_counted[of cfg2] show ?thesis
          unfolding c' by (blast intro: sameShared_trans)
      qed
    qed
  qed
qed (use assms in \<open>auto simp: rewriteCallSite_def sameShared_refl\<close>)

lemma rewriteParamFields_frame:
  "rewriteParamFields cfg fl = (fl', cfg') \<Longrightarrow> sameShared cfg cfg'"
proof (induction cfg fl arbitrary: fl' cfg' rule: rewriteParamFields.induct)
  case (1 cfg)
  then show ?case by (simp add: sameShared_refl)
next
  case (2 cfg q names t rest)
  show ?case
  proof (cases "fnParamsVisited cfg (posInCurrentPkg cfg q) = Some True")
    case True
    let ?c = "cfg\<lparr>modified := True, astParamsModifiedNum := astParamsModifiedNum cfg + 1\<rparr>"
    from "2.prems" True obtain rest' where r: "rewriteParamFields ?c rest = (rest', cfg')"
      by (auto split: prod.splits)
    have "sameShared cfg ?c" by (simp add: sameShared_def clearScratch_def)
    with "2.IH"(1)[OF True r] show ?thesis by (blast intro: sameShared_trans)
  next
    case False
    from "2.prems" False obtain rest' where r: "rewriteParamFields cfg rest = (rest', cfg')"
      by (auto split: prod.splits)
    from "2.IH"(2)[OF False r] show ?thesis .
  qed
qed

lemma rewriteMethodFields_frame:
  "rewriteMethodFields cfg i fl = (fl', cfg') \<Longrightarrow> sameShared cfg cfg'"
proof (induction cfg i fl arbitrary: fl' cfg' rule: rewriteMethodFields.induct)
  case (1 cfg i)
  then show ?case by (simp add: sameShared_refl)
next
  case (2 cfg i q names t rest)
  show ?case
  proof (cases "fnVisited cfg (posInCurrentPkg cfg q) = Some regularFn")
    case True
    let ?c = "cfg\<lparr>astIfaceModified := insert i (astIfaceModified cfg), modified := True,
                      ifaceMethodModifiedNum := ifaceMethodModifiedNum cfg + 1\<rparr>"
    from "2.prems" True obtain rest' where r: "rewriteMethodFields ?c i rest = (rest', cfg')"
      by (auto split: prod.splits)
    have "sameShared cfg ?c" by (simp add: sameShared_def clearScratch_def)
    with "2.IH"(1)[OF True r] show ?thesis by (blast intro: sameShared_trans)
  next
    case False
    from "2.prems" False obtain rest' where r: "rewriteMethodFields cfg i rest = (rest', cfg')"
      by (auto split: prod.splits)
    from "2.IH"(2)[OF False r] show ?thesis .
  qed
qed

lemma sameShared_flag:
  "sameShared c (c\<lparr>modified := True, astSigsModifiedNum := n\<rparr>)"
  "sameShared c (c\<lparr>modified := True, astDefsModifiedNum := n\<rparr>)"
  "sameShared c (c\<lparr>modified := True, astNamedModifiedNum := n\<rparr>)"
  by (simp_all add: sameShared_def clearScratch_def)

lemma astRewrite_frame:
  assumes "astRewrite cfg n = Inr (n', cfg')"
  shows "sameShared cfg cfg'"
proof (cases n)
  case (CallNode parent e)
  from assms CallNode obtain e1 p cfg1 e2 where
    a: "renameCallSite cfg parent e = Inr (e1, p, cfg1)"
    and b: "rewriteCallSite cfg1 parent e1 p = Inr (e2, cfg')"
    by (auto split: sum.splits)
  from renameCallSite_frame[OF a] rewriteCallSite_frame[OF b] show ?thesis
    by (blast intro: sameShared_trans)
next
  case (ParamsList fl)
  with assms show ?thesis by (auto split: prod.splits dest: rewriteParamFields_frame)
next
  case (IfaceMethods i fl)
  with assms show ?thesis by (auto split: prod.splits dest: rewriteMethodFields_frame)
next
  case (FieldNode f)
  with assms show ?thesis by (cases f) (auto simp: sameShared_refl split: if_splits)
qed (use assms in \<open>auto simp: sameShared_refl sameShared_flag split: if_splits option.splits\<close>)

lemma astApply_frame:
  "astApply cfg ns = Inr (ns', cfg') \<Longrightarrow> sameShared cfg cfg'"
proof (induction ns arbitrary: cfg ns' cfg')
  case Nil
  then show ?case by (simp add: sameShared_refl)
next
  case (Cons n ns)
  from Cons.prems obtain n' cfg1 ns1 where
    a: "astRewrite cfg n = Inr (n', cfg1)" and b: "astApply cfg1 ns = Inr (ns1, cfg')"
    by (auto split: sum.splits)
  from astRewrite_frame[OF a] Cons.IH[OF b] show ?case by (blast intro: sameShared_trans)
qed

lemma importsOf_None: "(importsOf f path = None) = (path \<notin> snd ` set (fileImports f))"
proof -
  have "(foldl (\<lambda>m (name, path). m(path \<mapsto> name)) Map.empty xs path = None)
          = (path \<notin> snd ` set xs)" for xs :: "(string \<times> string) list"
    by (induction xs rule: rev_induct) (auto split: prod.splits)
  then show ?thesis by (simp add: importsOf_def)
qed




lemma transformFile_astApply:
  assumes "transformFile cfg f = Inr (f', cfg', added)"
  shows "\<exists>nodes'. astApply ((initContextExpressions (computeExistingImports f cfg))\<lparr>newImports := [], modified := False\<rparr>)
            (fileNodes f) = Inr (nodes', cfg')
          \<and> (added, f') = (if modified cfg' then addImports cfg' (f\<lparr>fileNodes := nodes'\<rparr>)
                            else (False, f\<lparr>fileNodes := nodes'\<rparr>))"
proof -
  let ?c2 = "(initContextExpressions (computeExistingImports f cfg))\<lparr>newImports := [], modified := False\<rparr>"
  show ?thesis
  proof (cases "astApply ?c2 (fileNodes f)")
    case (Inl x)
    with assms show ?thesis by (simp add: transformFile_def Let_def)
  next
    case (Inr res)
    obtain nodes' c3 where res: "res = (nodes', c3)" by (cases res)
    show ?thesis
    proof (cases "modified c3")
      case True
      with assms Inr res show ?thesis
        by (cases "addImports c3 (f\<lparr>fileNodes := nodes'\<rparr>)") (simp add: transformFile_def Let_def)
    next
      case False
      with assms Inr res show ?thesis by (simp add: transformFile_def Let_def)
    qed
  qed
qed



text \<open>
  \<open>initContextExpressions\<close> also prepends the qualifier to \<open>CtxParamInvalid\<close> itself,
  once for every file.
\<close>

lemma CtxParamInvalid_accumulates:
  "CtxParamInvalid twoFilesConfig = ''Background()''
   \<and> CtxParamInvalid afterFileA = ''ctxa.Background()''
   \<and> CtxParamInvalid afterFileB = ''ctxb.ctxa.Background()''"
  by (simp add: twoFilesConfig_def fileA_def fileB_def afterFileA_def afterFileB_def example_defs
        file_defs Let_def)


section \<open>The imports of a rewritten file\<close>

lemma AddNamedImport_spec:
  assumes "AddNamedImport f n p = (a, f')"
  shows "fileNodes f' = fileNodes f"
    and "fileImports f' = fileImports f @ (if (n, p) \<in> set (fileImports f) then [] else [(n, p)])"
    and "a = ((n, p) \<notin> set (fileImports f))"
  using assms by (auto simp: AddNamedImport_def split: if_splits)

lemma addNewImports_spec:
  "addNewImports ni (a, f) = (a', f') \<Longrightarrow>
     \<exists>ns. fileImports f' = fileImports f @ ns \<and> distinct ns
          \<and> set ns = importSpec ` set ni - set (fileImports f)
          \<and> a' = (a \<or> ns \<noteq> []) \<and> fileNodes f' = fileNodes f"
proof (induction ni arbitrary: a f)
  case Nil
  then show ?case by simp
next
  case (Cons x rest)
  obtain imp al where x: "x = (imp, al)" by (cases x)
  obtain b g where step: "AddNamedImport f al imp = (b, g)"
    by (cases "AddNamedImport f al imp")
  have rest: "addNewImports rest (b \<or> a, g) = (a', f')"
    using Cons.prems x step by (auto simp: AddImport_def split: if_splits)
  from Cons.IH[OF rest] obtain ns where
    ns: "fileImports f' = fileImports g @ ns" "distinct ns"
      "set ns = importSpec ` set rest - set (fileImports g)"
      "a' = ((b \<or> a) \<or> ns \<noteq> [])" "fileNodes f' = fileNodes g"
    by blast
  let ?first = "if (al, imp) \<in> set (fileImports f) then [] else [(al, imp)]"
  from AddNamedImport_spec[OF step] have
    g: "fileNodes g = fileNodes f" "fileImports g = fileImports f @ ?first"
       "b = ((al, imp) \<notin> set (fileImports f))" by auto
  have "fileImports f' = fileImports f @ (?first @ ns)" using ns g by simp
  moreover have "distinct (?first @ ns)" using ns g by auto
  moreover have "set (?first @ ns) = importSpec ` set (x # rest) - set (fileImports f)"
    using ns g x by (auto simp: importSpec_def)
  moreover have "a' = (a \<or> ?first @ ns \<noteq> [])" using ns g by auto
  moreover have "fileNodes f' = fileNodes f" using ns g by simp
  ultimately show ?case by blast
qed

lemma addImports_spec:
  assumes "addImports cfg f = (a', f')"
  shows "\<exists>ns. fileImports f' = fileImports f @ ns \<and> distinct ns
          \<and> set ns \<inter> set (fileImports f) = {}
          \<and> set ns = ((case existingImports cfg (CtxPkgPath cfg) of
                            None \<Rightarrow> {(CtxPkgAlias cfg, CtxPkgPath cfg)} | Some a \<Rightarrow> {})
                        \<union> importSpec ` set (newImports cfg)) - set (fileImports f)
          \<and> a' = (ns \<noteq> []) \<and> fileNodes f' = fileNodes f"
proof -
  obtain b g where step:
    "(case existingImports cfg (CtxPkgPath cfg) of
          None \<Rightarrow> AddNamedImport f (CtxPkgAlias cfg) (CtxPkgPath cfg)
        | Some a \<Rightarrow> (False, f)) = (b, g)"
    by (cases "(case existingImports cfg (CtxPkgPath cfg) of
          None \<Rightarrow> AddNamedImport f (CtxPkgAlias cfg) (CtxPkgPath cfg)
        | Some a \<Rightarrow> (False, f))")
  have same: "(if CtxPkgAlias cfg = [] then AddImport f (CtxPkgPath cfg)
             else AddNamedImport f (CtxPkgAlias cfg) (CtxPkgPath cfg))
         = AddNamedImport f (CtxPkgAlias cfg) (CtxPkgPath cfg)"
    by (simp add: AddImport_def)
  have rest: "addNewImports (newImports cfg) (b, g) = (a', f')"
    using assms step by (simp add: addImports_def same split: option.splits)
  let ?ctx = "(CtxPkgAlias cfg, CtxPkgPath cfg)"
  let ?first = "case existingImports cfg (CtxPkgPath cfg) of
                  None \<Rightarrow> (if ?ctx \<in> set (fileImports f) then [] else [?ctx]) | Some a \<Rightarrow> []"
  have g: "fileNodes g = fileNodes f" "fileImports g = fileImports f @ ?first" "b = (?first \<noteq> [])"
    using step by (auto split: option.splits dest: AddNamedImport_spec)
  from addNewImports_spec[OF rest] obtain ns where
    ns: "fileImports f' = fileImports g @ ns" "distinct ns"
      "set ns = importSpec ` set (newImports cfg) - set (fileImports g)"
      "a' = (b \<or> ns \<noteq> [])" "fileNodes f' = fileNodes g"
    by blast
  have "fileImports f' = fileImports f @ (?first @ ns)" using ns g by simp
  moreover have "distinct (?first @ ns)" using ns g by (auto split: option.splits)
  moreover have "set (?first @ ns) \<inter> set (fileImports f) = {}"
    using ns g by (auto split: option.splits if_splits)
  moreover have "set (?first @ ns) = ((case existingImports cfg (CtxPkgPath cfg) of
                            None \<Rightarrow> {?ctx} | Some a \<Rightarrow> {})
                        \<union> importSpec ` set (newImports cfg)) - set (fileImports f)"
    using ns g by (auto split: option.splits if_splits)
  moreover have "a' = (?first @ ns \<noteq> [])" using ns g by auto
  moreover have "fileNodes f' = fileNodes f" using ns g by simp
  ultimately show ?thesis by blast
qed


text \<open>
  C6, as the code has it. A file that the rewrite does not modify gets no import. A
  file that it modifies gets the import of the context package exactly when no import
  of the file has this path (whether or not the new code mentions the package), and,
  for every import that the injected call-site expressions asked for, the
  specification with this name and path exactly when the file does not have it.
  No specification is added twice, and none that the file already has.
\<close>

theorem transformFile_imports:
  assumes "transformFile cfg f = Inr (f', cfg', added)"
  shows "\<exists>ns. fileImports f' = fileImports f @ ns \<and> distinct ns
          \<and> set ns \<inter> set (fileImports f) = {}
          \<and> added = (ns \<noteq> [])
          \<and> set ns =
               (if modified cfg'
                then ((if CtxPkgPath cfg \<in> snd ` set (fileImports f) then {}
                       else {(CtxPkgAlias cfg, CtxPkgPath cfg)})
                      \<union> importSpec ` set (newImports cfg')) - set (fileImports f)
                else {})"
proof -
  let ?c2 = "(initContextExpressions (computeExistingImports f cfg))\<lparr>newImports := [], modified := False\<rparr>"
  from transformFile_astApply[OF assms] obtain nodes' where
    a: "astApply ?c2 (fileNodes f) = Inr (nodes', cfg')"
    and b: "(added, f') = (if modified cfg' then addImports cfg' (f\<lparr>fileNodes := nodes'\<rparr>)
                            else (False, f\<lparr>fileNodes := nodes'\<rparr>))"
    by blast
  from astApply_frame[OF a] have s: "sameShared ?c2 cfg'" .
  have ex: "existingImports cfg' = importsOf f"
    using sameShared_fields(2)[OF s]
    by (simp add: initContextExpressions_def Let_def computeExistingImports_def)
  have path: "CtxPkgPath cfg' = CtxPkgPath cfg" and al: "CtxPkgAlias cfg' = CtxPkgAlias cfg"
    using sameShared_fields(6,7)[OF s]
    by (simp_all add: initContextExpressions_def Let_def computeExistingImports_def)
  show ?thesis
  proof (cases "modified cfg'")
    case False
    with b show ?thesis by simp
  next
    case True
    with b have c: "addImports cfg' (f\<lparr>fileNodes := nodes'\<rparr>) = (added, f')" by simp
    have lookup: "(case existingImports cfg' (CtxPkgPath cfg') of
                     None \<Rightarrow> {(CtxPkgAlias cfg', CtxPkgPath cfg')} | Some a \<Rightarrow> {})
        = (if CtxPkgPath cfg \<in> snd ` set (fileImports f) then {}
           else {(CtxPkgAlias cfg, CtxPkgPath cfg)})"
      using importsOf_None[of f "CtxPkgPath cfg"]
      by (auto simp: ex path al split: option.splits)
    from addImports_spec[OF c] obtain ns where
      ns: "fileImports f' = fileImports f @ ns" "distinct ns"
        "set ns \<inter> set (fileImports f) = {}"
        "set ns = ((case existingImports cfg' (CtxPkgPath cfg') of
                     None \<Rightarrow> {(CtxPkgAlias cfg', CtxPkgPath cfg')} | Some a \<Rightarrow> {})
                   \<union> importSpec ` set (newImports cfg')) - set (fileImports f)"
        "added = (ns \<noteq> [])"
      by auto
    show ?thesis
      using True ns(1,2,3,5) ns(4)[unfolded lookup] by (intro exI[of _ ns]) simp
  qed
qed

text \<open>
  C6 as stated fails: the only new code of this file is the argument \<open>cc.Ctx()\<close>,
  which does not mention the context package, and the import of \<open>context\<close> is added.
\<close>

theorem transformFile_imports_counterexample:
  "transformFile customCtxConfig customCtxFile
     = Inr (\<lparr>fileImports = [([], ''custom''), ([], ''lib''), ([], ''context'')],
             fileNodes = [CallNode ParentOther
                            (CallExpr (SelectorExpr (Ident ''lib'') ''A'') 5
                               [Ident ''cc.Ctx()'', Ident ''x''])]\<rparr>,
            afterCustomCtxFile, True)
   \<and> \<not> contains ''cc.Ctx()'' ''context''"
  by (simp add: customCtxConfig_def customCtxFile_def afterCustomCtxFile_def example_defs
        file_defs call_defs Let_def)

theorem transformFile_imports_witness:
  "transformFile customCtxConfig customCtxFile
     = Inr (\<lparr>fileImports = [([], ''custom''), ([], ''lib'')] @ [([], ''context'')],
             fileNodes = [CallNode ParentOther
                            (CallExpr (SelectorExpr (Ident ''lib'') ''A'') 5
                               [Ident ''cc.Ctx()'', Ident ''x''])]\<rparr>,
            afterCustomCtxFile, True)
   \<and> (\<exists>ns. [([], ''custom''), ([], ''lib''), ([], ''context'')]
              = fileImports customCtxFile @ ns \<and> distinct ns
           \<and> set ns \<inter> set (fileImports customCtxFile) = {}
           \<and> set ns = {([], ''context'')})"
proof -
  have h: "transformFile customCtxConfig customCtxFile
     = Inr (\<lparr>fileImports = [([], ''custom''), ([], ''lib''), ([], ''context'')],
             fileNodes = [CallNode ParentOther
                            (CallExpr (SelectorExpr (Ident ''lib'') ''A'') 5
                               [Ident ''cc.Ctx()'', Ident ''x''])]\<rparr>,
            afterCustomCtxFile, True)"
    by (simp add: customCtxConfig_def customCtxFile_def afterCustomCtxFile_def example_defs
        file_defs call_defs Let_def)
  have m: "modified afterCustomCtxFile" "newImports afterCustomCtxFile = []"
    "CtxPkgPath customCtxConfig = ''context''" "CtxPkgAlias customCtxConfig = []"
    by (simp_all add: afterCustomCtxFile_def customCtxConfig_def example_defs)
  have i: "fileImports customCtxFile = [([], ''custom''), ([], ''lib'')]"
    by (simp add: customCtxFile_def)
  from transformFile_imports[OF h] h show ?thesis
    by (simp add: m i)
qed

section \<open>Properties of the upward propagation\<close>


subsection \<open>An inbound edge without a position\<close>

text \<open>
  C8. When the loop of \<open>collect\<close> over the inbound edges of the node taken from the
  work list reaches an edge whose position is invalid, it calls \<open>collect\<close> on the
  remaining work list and returns. So nothing is recorded or classified for that
  edge, nor for the inbound edges of the node that come after it: the run is the
  one of the node with its list of inbound edges cut before the invalid edge. The
  edges before it are processed as usual, and the rest of the work list is.
\<close>

theorem collectEdges_invalid_position:
  assumes "\<not> IsValid (edgePos e)"
  shows "collectEdges k n (es1 @ e # es2) nodesWorkList vis cfg
           = collectEdges k n es1 nodesWorkList vis cfg"
proof (induction es1 arbitrary: k vis cfg)
  case Nil
  show ?case
  proof (cases k)
    case 0
    then show ?thesis by simp
  next
    case (Suc j)
    then show ?thesis using assms by (simp add: edgeActionOf_def)
  qed
next
  case (Cons a as)
  show ?case
  proof (cases k)
    case 0
    then show ?thesis by simp
  next
    case (Suc j)
    have step: "collectEdges j n (as @ e # es2) nodesWorkList = collectEdges j n as nodesWorkList"
      by (intro ext) (rule Cons.IH)
    show ?thesis unfolding Suc append_Cons collectEdges.simps step ..
  qed
qed

text \<open>
  The function \<open>F\<close> is taken from the work list; its inbound edges are the edge from
  \<open>G\<close>, which has no position, and the call in \<open>H\<close> at position \<open>1110\<close>. With the edge
  from \<open>G\<close> first, the call in \<open>H\<close> is not recorded and \<open>H\<close> is not classified; with the
  edge from \<open>G\<close> last, the call is recorded and \<open>H\<close> is classified.
\<close>

theorem collectEdges_invalid_position_counterexample:
  "siteAfter (collect 10 [\<lparr>nodeFunc = funF, nodeID = 10\<rparr>] {} (callersConfig [edgeGF, edgeHF])) 1110
     = Some (Inr None)
   \<and> classAfter (collect 10 [\<lparr>nodeFunc = funF, nodeID = 10\<rparr>] {} (callersConfig [edgeGF, edgeHF])) 1100
     = Some (Inr None)
   \<and> siteAfter (collect 10 [\<lparr>nodeFunc = funF, nodeID = 10\<rparr>] {} (callersConfig [edgeHF, edgeGF])) 1110
     = Some (Inr (Some CommonRepl))
   \<and> classAfter (collect 10 [\<lparr>nodeFunc = funF, nodeID = 10\<rparr>] {} (callersConfig [edgeHF, edgeGF])) 1100
     = Some (Inr (Some regularFn))"
  by code_simp

theorem collectEdges_invalid_position_witness:
  "\<not> IsValid (edgePos edgeGF)
   \<and> collectEdges 9 \<lparr>nodeFunc = funF, nodeID = 10\<rparr> ([edgeKF] @ edgeGF # [edgeHF]) [] {}
         (callersConfig [edgeKF, edgeGF, edgeHF])
       = collectEdges 9 \<lparr>nodeFunc = funF, nodeID = 10\<rparr> [edgeKF] [] {}
           (callersConfig [edgeKF, edgeGF, edgeHF])
   \<and> siteAfter (collectEdges 9 \<lparr>nodeFunc = funF, nodeID = 10\<rparr> [edgeKF] [] {}
                  (callersConfig [edgeKF, edgeGF, edgeHF])) 1310 = Some (Inr (Some CommonRepl))"
proof -
  have h: "\<not> IsValid (edgePos edgeGF)"
    by (simp add: edgeGF_def callEdge_def edgePos_def IsValid_def NoPos_def)
  have r: "siteAfter (collectEdges 9 \<lparr>nodeFunc = funF, nodeID = 10\<rparr> [edgeKF] [] {}
                  (callersConfig [edgeKF, edgeGF, edgeHF])) 1310 = Some (Inr (Some CommonRepl))"
    by code_simp
  from collectEdges_invalid_position[OF h, of 9 "\<lparr>nodeFunc = funF, nodeID = 10\<rparr>" "[edgeKF]"
         "[edgeHF]" "[]" "{}" "callersConfig [edgeKF, edgeGF, edgeHF]"] h r
  show ?thesis by simp
qed

section \<open>What the propagation leaves alone\<close>

lemma sameProgram_refl: "sameProgram c c"
  by (simp add: sameProgram_def)

lemma sameProgram_trans: "sameProgram a b \<Longrightarrow> sameProgram b c \<Longrightarrow> sameProgram a c"
  by (simp add: sameProgram_def)

lemma sameProgram_sym: "sameProgram a b \<Longrightarrow> sameProgram b a"
  by (simp add: sameProgram_def)

lemma clearTables_update:
  "clearTables (c\<lparr>Warnings := w\<rparr>) = clearTables c"
  "clearTables (c\<lparr>fnVisited := v\<rparr>) = clearTables c"
  "clearTables (c\<lparr>callSites := s\<rparr>) = clearTables c"
  "clearTables (c\<lparr>callSitesRenamed := r\<rparr>) = clearTables c"
  "clearTables (c\<lparr>ifaceModified := m\<rparr>) = clearTables c"
  "clearTables (c\<lparr>fnParamsVisited := p\<rparr>) = clearTables c"
  "clearTables (c\<lparr>renameParamsVisited := q\<rparr>) = clearTables c"
  by (simp_all add: clearTables_def)

lemma sameProgram_update:
  "sameProgram c d \<Longrightarrow> sameProgram c (d\<lparr>Warnings := w\<rparr>)"
  "sameProgram c d \<Longrightarrow> sameProgram c (d\<lparr>fnVisited := v\<rparr>)"
  "sameProgram c d \<Longrightarrow> sameProgram c (d\<lparr>callSites := s\<rparr>)"
  "sameProgram c d \<Longrightarrow> sameProgram c (d\<lparr>callSitesRenamed := r\<rparr>)"
  "sameProgram c d \<Longrightarrow> sameProgram c (d\<lparr>ifaceModified := m\<rparr>)"
  "sameProgram c d \<Longrightarrow> sameProgram c (d\<lparr>fnParamsVisited := p\<rparr>)"
  "sameProgram c d \<Longrightarrow> sameProgram c (d\<lparr>renameParamsVisited := q\<rparr>)"
  by (simp_all add: sameProgram_def clearTables_update)

lemma clearTables_fields:
  "prog (clearTables c) = prog c" "graph (clearTables c) = graph c"
  "mapAndSliceFuncs (clearTables c) = mapAndSliceFuncs c"
  "ifaces (clearTables c) = ifaces c" "extRecvTypes (clearTables c) = extRecvTypes c"
  "fsets (clearTables c) = fsets c" "largeCode (clearTables c) = largeCode c"
  "libIfaces (clearTables c) = libIfaces c" "debugLevel (clearTables c) = debugLevel c"
  "CtxParamName (clearTables c) = CtxParamName c"
  "CtxParamType (clearTables c) = CtxParamType c"
  "ctxParamTypeWithPkgPathName (clearTables c) = ctxParamTypeWithPkgPathName c"
  "ctxCustomParamTypeWithPkgPathName (clearTables c) = ctxCustomParamTypeWithPkgPathName c"
  "CtxCustomExprExtract (clearTables c) = CtxCustomExprExtract c"
  "PropagationStops (clearTables c) = PropagationStops c"
  "commonCallReplacement (clearTables c) = commonCallReplacement c"
  "LibFns (clearTables c) = LibFns c"
  "CtxPkgPath (clearTables c) = CtxPkgPath c" "LibPkgPath (clearTables c) = LibPkgPath c"
  "ExtPkgPaths (clearTables c) = ExtPkgPaths c"
  by (simp_all add: clearTables_def)

lemma sameProgram_fields:
  assumes "sameProgram c c'"
  shows "prog c' = prog c" "graph c' = graph c" "mapAndSliceFuncs c' = mapAndSliceFuncs c"
    "ifaces c' = ifaces c" "extRecvTypes c' = extRecvTypes c" "fsets c' = fsets c"
    "largeCode c' = largeCode c" "libIfaces c' = libIfaces c" "debugLevel c' = debugLevel c"
    "CtxParamName c' = CtxParamName c" "CtxParamType c' = CtxParamType c"
    "ctxParamTypeWithPkgPathName c' = ctxParamTypeWithPkgPathName c"
    "ctxCustomParamTypeWithPkgPathName c' = ctxCustomParamTypeWithPkgPathName c"
    "CtxCustomExprExtract c' = CtxCustomExprExtract c"
    "PropagationStops c' = PropagationStops c"
    "commonCallReplacement c' = commonCallReplacement c"
    "LibFns c' = LibFns c"
    "CtxPkgPath c' = CtxPkgPath c" "LibPkgPath c' = LibPkgPath c"
    "ExtPkgPaths c' = ExtPkgPaths c"
proof -
  have e: "clearTables c' = clearTables c" using assms by (simp add: sameProgram_def)
  show "prog c' = prog c" using arg_cong[OF e, of prog] by (simp add: clearTables_fields)
  show "graph c' = graph c" using arg_cong[OF e, of graph] by (simp add: clearTables_fields)
  show "mapAndSliceFuncs c' = mapAndSliceFuncs c"
    using arg_cong[OF e, of mapAndSliceFuncs] by (simp add: clearTables_fields)
  show "ifaces c' = ifaces c" using arg_cong[OF e, of ifaces] by (simp add: clearTables_fields)
  show "extRecvTypes c' = extRecvTypes c"
    using arg_cong[OF e, of extRecvTypes] by (simp add: clearTables_fields)
  show "fsets c' = fsets c" using arg_cong[OF e, of fsets] by (simp add: clearTables_fields)
  show "largeCode c' = largeCode c" using arg_cong[OF e, of largeCode] by (simp add: clearTables_fields)
  show "libIfaces c' = libIfaces c" using arg_cong[OF e, of libIfaces] by (simp add: clearTables_fields)
  show "debugLevel c' = debugLevel c" using arg_cong[OF e, of debugLevel] by (simp add: clearTables_fields)
  show "CtxParamName c' = CtxParamName c"
    using arg_cong[OF e, of CtxParamName] by (simp add: clearTables_fields)
  show "CtxParamType c' = CtxParamType c"
    using arg_cong[OF e, of CtxParamType] by (simp add: clearTables_fields)
  show "ctxParamTypeWithPkgPathName c' = ctxParamTypeWithPkgPathName c"
    using arg_cong[OF e, of ctxParamTypeWithPkgPathName] by (simp add: clearTables_fields)
  show "ctxCustomParamTypeWithPkgPathName c' = ctxCustomParamTypeWithPkgPathName c"
    using arg_cong[OF e, of ctxCustomParamTypeWithPkgPathName] by (simp add: clearTables_fields)
  show "CtxCustomExprExtract c' = CtxCustomExprExtract c"
    using arg_cong[OF e, of CtxCustomExprExtract] by (simp add: clearTables_fields)
  show "PropagationStops c' = PropagationStops c"
    using arg_cong[OF e, of PropagationStops] by (simp add: clearTables_fields)
  show "commonCallReplacement c' = commonCallReplacement c"
    using arg_cong[OF e, of commonCallReplacement] by (simp add: clearTables_fields)
  show "LibFns c' = LibFns c" using arg_cong[OF e, of LibFns] by (simp add: clearTables_fields)
  show "CtxPkgPath c' = CtxPkgPath c" using arg_cong[OF e, of CtxPkgPath] by (simp add: clearTables_fields)
  show "LibPkgPath c' = LibPkgPath c" using arg_cong[OF e, of LibPkgPath] by (simp add: clearTables_fields)
  show "ExtPkgPaths c' = ExtPkgPaths c" using arg_cong[OF e, of ExtPkgPaths] by (simp add: clearTables_fields)
qed

lemma sameProgram_writeWarning: "sameProgram c d \<Longrightarrow> sameProgram c (writeWarning p msg d)"
  by (simp add: writeWarning_def sameProgram_update)

lemma sameProgram_warnOtherPackageType:
  "warnOtherPackageType cond pt f p msg d = Inr d' \<Longrightarrow> sameProgram c d \<Longrightarrow> sameProgram c d'"
  by (auto simp: warnOtherPackageType_def sameProgram_writeWarning split: if_splits option.splits)

lemma sameProgram_markFnAsFreshCtx:
  "sameProgram c d \<Longrightarrow> sameProgram c (markFnAsFreshCtx p name path t ex d)"
  by (simp add: markFnAsFreshCtx_def Let_def sameProgram_update sameProgram_writeWarning)

lemma sameProgram_markFresh:
  "markFresh f p t ex d = Inr d' \<Longrightarrow> sameProgram c d \<Longrightarrow> sameProgram c d'"
  by (auto simp: markFresh_def sameProgram_markFnAsFreshCtx split: option.splits)

lemma sameProgram_markIfaceMethod:
  "sameProgram c d \<Longrightarrow> sameProgram c (markIfaceMethod n d mi)"
  by (cases mi) (simp add: markIfaceMethod_def sameProgram_update)

lemma sameProgram_markIfaceMethods:
  "sameProgram c d \<Longrightarrow> sameProgram c (foldl (markIfaceMethod n) d ms)"
  by (induction ms arbitrary: d) (simp_all add: sameProgram_markIfaceMethod)

lemma sameProgram_addIfacesModified:
  "addIfacesModified d sg n r = Inr (b, d') \<Longrightarrow> sameProgram c d \<Longrightarrow> sameProgram c d'"
  by (auto simp: addIfacesModified_def sameProgram_markIfaceMethods split: if_splits option.splits)

lemma addIfacesModified_False:
  "addIfacesModified d sg n r = Inr (False, d2) \<Longrightarrow> d2 = d"
  by (auto simp: addIfacesModified_def split: if_splits option.splits)

text \<open>The two ways in which \<open>classifyFn\<close> returns.\<close>

lemma classifyFn_cases:
  assumes "classifyFn d f n r pt w = Inr (b, d')"
  obtains (fresh) d1 t where
      "warnOtherPackageType
         (w \<or> \<not> (fnVisited d (getUniquePosSSAFn d f (fnPos f)) \<noteq> None)
            \<or> (case fnVisited d (getUniquePosSSAFn d f (fnPos f)) of
                  Some x \<Rightarrow> x | None \<Rightarrow> regularFn) = extFn)
         pt f (fnPos f) (otherPackageTypeWarning ''function'' (fnName f) d) d = Inr d1"
      "markFresh f (getUniquePosSSAFn d f (fnPos f)) t
         (fnVisited d (getUniquePosSSAFn d f (fnPos f)) \<noteq> None) d1 = Inr d'"
      "\<not> b"
      "fnVisited d (getUniquePosSSAFn d f (fnPos f)) = Some regularFn \<longrightarrow>
         isTestingInitOrMainFunction (fnName f) (fnSignature f)
         \<or> isMapOrSliceSig d1 (fnPkg f) (fnSignature f)
         \<or> isExtReceiver d1 (fnSignature f)
         \<or> addIfacesModified d1 (fnSignature f) n r = Inr (False, d1)"
  | (regular) d1 d2 where
      "warnOtherPackageType
         (w \<or> \<not> (fnVisited d (getUniquePosSSAFn d f (fnPos f)) \<noteq> None)
            \<or> (case fnVisited d (getUniquePosSSAFn d f (fnPos f)) of
                  Some x \<Rightarrow> x | None \<Rightarrow> regularFn) = extFn)
         pt f (fnPos f) (otherPackageTypeWarning ''function'' (fnName f) d) d = Inr d1"
      "addIfacesModified d1 (fnSignature f) n r = Inr (True, d2)"
      "d' = d2\<lparr>fnVisited := (fnVisited d2)(getUniquePosSSAFn d f (fnPos f) \<mapsto> regularFn)\<rparr>"
      "b"
      "fnVisited d (getUniquePosSSAFn d f (fnPos f)) = None
         \<or> fnVisited d (getUniquePosSSAFn d f (fnPos f)) = Some regularFn"
      "\<not> isTestingInitOrMainFunction (fnName f) (fnSignature f)"
      "\<not> isMapOrSliceSig d1 (fnPkg f) (fnSignature f)"
      "\<not> isExtReceiver d1 (fnSignature f)"
proof -
  let ?p = "getUniquePosSSAFn d f (fnPos f)"
  let ?ex = "fnVisited d ?p \<noteq> None"
  let ?t = "case fnVisited d ?p of Some x \<Rightarrow> x | None \<Rightarrow> regularFn"
  let ?W = "warnOtherPackageType (w \<or> \<not> ?ex \<or> ?t = extFn) pt f (fnPos f)
                        (otherPackageTypeWarning ''function'' (fnName f) d) d"
  obtain d1 where w: "?W = Inr d1"
  proof (cases ?W)
    case (Inl x)
    show ?thesis using assms(1) unfolding classifyFn_def Let_def Inl by simp
  next
    case (Inr d1)
    then show ?thesis using that by blast
  qed
  have rest: "(if (?ex \<and> ?t \<noteq> regularFn) \<or> isTestingInitOrMainFunction (fnName f) (fnSignature f)
             then map_sum id (Pair False) (markFresh f ?p ?t ?ex d1)
             else if isMapOrSliceSig d1 (fnPkg f) (fnSignature f)
             then map_sum id (Pair False) (markFresh f ?p containerSig ?ex d1)
             else if isExtReceiver d1 (fnSignature f)
             then map_sum id (Pair False) (markFresh f ?p extRecv ?ex d1)
             else
               (case addIfacesModified d1 (fnSignature f) n r of
                  Inl x \<Rightarrow> Inl x
                | Inr (modif, cfg2) \<Rightarrow>
                    if modif
                    then Inr (True, cfg2\<lparr>fnVisited := (fnVisited cfg2)(?p \<mapsto> regularFn)\<rparr>)
                    else map_sum id (Pair False) (markFresh f ?p extPkg ?ex cfg2))) = Inr (b, d')"
    using assms(1) unfolding classifyFn_def Let_def w by simp
  have mf: "map_sum id (Pair False) (markFresh f ?p t ?ex x) = Inr (b, d')
              \<Longrightarrow> markFresh f ?p t ?ex x = Inr d' \<and> \<not> b" for t x
    by (cases "markFresh f ?p t ?ex x") auto
  show ?thesis
  proof (cases "(?ex \<and> ?t \<noteq> regularFn) \<or> isTestingInitOrMainFunction (fnName f) (fnSignature f)")
    case True
    have m: "markFresh f ?p ?t ?ex d1 = Inr d' \<and> \<not> b"
      using rest unfolding if_P[OF True] by (rule mf)
    have "fnVisited d ?p = Some regularFn \<longrightarrow>
            isTestingInitOrMainFunction (fnName f) (fnSignature f)"
      using True by auto
    then show ?thesis using fresh[OF w, of ?t] m by blast
  next
    case c1: False
    show ?thesis
    proof (cases "isMapOrSliceSig d1 (fnPkg f) (fnSignature f)")
      case True
      have m: "markFresh f ?p containerSig ?ex d1 = Inr d' \<and> \<not> b"
        using rest unfolding if_not_P[OF c1] if_P[OF True] by (rule mf)
      then show ?thesis using fresh[OF w, of containerSig] True by blast
    next
      case c2: False
      show ?thesis
      proof (cases "isExtReceiver d1 (fnSignature f)")
        case True
        have m: "markFresh f ?p extRecv ?ex d1 = Inr d' \<and> \<not> b"
          using rest unfolding if_not_P[OF c1] if_not_P[OF c2] if_P[OF True] by (rule mf)
        then show ?thesis using fresh[OF w, of extRecv] True by blast
      next
        case c3: False
        have rest3: "(case addIfacesModified d1 (fnSignature f) n r of
                  Inl x \<Rightarrow> Inl x
                | Inr (modif, cfg2) \<Rightarrow>
                    if modif
                    then Inr (True, cfg2\<lparr>fnVisited := (fnVisited cfg2)(?p \<mapsto> regularFn)\<rparr>)
                    else map_sum id (Pair False) (markFresh f ?p extPkg ?ex cfg2)) = Inr (b, d')"
          using rest unfolding if_not_P[OF c1] if_not_P[OF c2] if_not_P[OF c3] .
        obtain modif d2 where a: "addIfacesModified d1 (fnSignature f) n r = Inr (modif, d2)"
          using rest3 by (cases "addIfacesModified d1 (fnSignature f) n r") auto
        show ?thesis
        proof (cases modif)
          case True
          have e: "d' = d2\<lparr>fnVisited := (fnVisited d2)(?p \<mapsto> regularFn)\<rparr>" and b: b
            using rest3 a True by auto
          have pr: "fnVisited d ?p = None \<or> fnVisited d ?p = Some regularFn"
            using c1 by (cases "fnVisited d ?p") auto
          have a': "addIfacesModified d1 (fnSignature f) n r = Inr (True, d2)"
            using a True by simp
          show ?thesis using regular[OF w a' e b pr] c1 c2 c3 by blast
        next
          case False
          have d2: "d2 = d1" using addIfacesModified_False[of d1 _ _ _ d2] a False by simp
          have "map_sum id (Pair False) (markFresh f ?p extPkg ?ex d1) = Inr (b, d')"
            using rest3 a False d2 by simp
          then have m: "markFresh f ?p extPkg ?ex d1 = Inr d' \<and> \<not> b" by (rule mf)
          have a': "addIfacesModified d1 (fnSignature f) n r = Inr (False, d1)"
            using a False d2 by simp
          show ?thesis using fresh[OF w, of extPkg] m a' by blast
        qed
      qed
    qed
  qed
qed

lemma sameProgram_classifyFn:
  assumes "classifyFn d f n r pt w = Inr (b, d')" "sameProgram c d"
  shows "sameProgram c d'"
  using assms(1)
proof (cases rule: classifyFn_cases)
  case (fresh d1 t)
  from sameProgram_warnOtherPackageType[OF fresh(1) assms(2)] have "sameProgram c d1" .
  then show ?thesis using sameProgram_markFresh[OF fresh(2)] by blast
next
  case (regular d1 d2)
  from sameProgram_warnOtherPackageType[OF regular(1) assms(2)] have "sameProgram c d1" .
  then have "sameProgram c d2" using sameProgram_addIfacesModified[OF regular(2)] by blast
  then show ?thesis unfolding regular(3) by (rule sameProgram_update)
qed

lemma thenDo_Inr:
  "thenDo m f = Some (Inr y) \<Longrightarrow> \<exists>x. m = Some (Inr x) \<and> f x = Some (Inr y)"
  by (auto simp: thenDo_def split: option.splits sum.splits)

lemma sameProgram_recordInitCallSite:
  "recordInitCallSite e p d = Inr d' \<Longrightarrow> sameProgram c d \<Longrightarrow> sameProgram c d'"
  by (auto simp: recordInitCallSite_def sameProgram_update sameProgram_writeWarning
           split: if_splits option.splits)

lemma sameProgram_recordParamName:
  "sameProgram c d \<Longrightarrow> sameProgram c (recordParamName p n d)"
  by (simp add: recordParamName_def sameProgram_update)

lemma sameProgram_fnParamAction:
  "fnParamAction d e = Some (Inr d') \<Longrightarrow> sameProgram c d \<Longrightarrow> sameProgram c d'"
  by (auto simp: fnParamAction_def Let_def sameProgram_update
           split: ssaValue.splits if_splits goType.splits sum.splits
           dest: sameProgram_warnOtherPackageType)

lemma sameProgram_fnDefActionOf:
  "fnDefActionOf d caller vis = ReturnName nm d' \<Longrightarrow> sameProgram c d \<Longrightarrow> sameProgram c d'"
  by (auto simp: fnDefActionOf_def sameProgram_update split: prod.splits if_splits option.splits)

text \<open>The propagation changes the tables and the warnings only.\<close>

lemma collect_frame:
  "\<forall>v c'. collect k nodesWorkList vis cfg = Some (Inr (v, c')) \<longrightarrow> sameProgram cfg c'"
  and collectEdges_frame:
  "\<forall>v c'. collectEdges k2 n es wl2 vis2 cfg2 = Some (Inr (v, c')) \<longrightarrow> sameProgram cfg2 c'"
  and collectFnParam_frame:
  "\<forall>v c'. collectFnParam k3 wl3 e vis3 cfg3 = Some (Inr (v, c')) \<longrightarrow> sameProgram cfg3 c'"
  and collectOutEdges_frame:
  "\<forall>v c'. collectOutEdges k4 wl4 e4 os vis4 cfg4 = Some (Inr (v, c')) \<longrightarrow> sameProgram cfg4 c'"
  and collectFnDef_frame:
  "\<forall>nm v c'. collectFnDef k5 wl5 caller fnNm fnRecv vis5 cfg5 = Some (Inr (nm, v, c'))
       \<longrightarrow> sameProgram cfg5 c'"
proof (induction k nodesWorkList vis cfg and k2 n es wl2 vis2 cfg2 and k3 wl3 e vis3 cfg3
         and k4 wl4 e4 os vis4 cfg4 and k5 wl5 caller fnNm fnRecv vis5 cfg5
       rule: collect_collectEdges_collectFnParam_collectOutEdges_collectFnDef.induct)
  case (1 nodesWorkList vis cfg)
  then show ?case by simp
next
  case (2 k nodesWorkList vis cfg)
  then show ?case by (auto simp: sameProgram_refl split: if_splits)
next
  case (3 n es nodesWorkList vis cfg)
  then show ?case by simp
next
  case (4 k n nodesWorkList vis cfg)
  then show ?case by simp
next
  case (5 k n e es nodesWorkList vis cfg)
  show ?case
  proof (intro allI impI)
    fix v c'
    assume r: "collectEdges (Suc k) n (e # es) nodesWorkList vis cfg = Some (Inr (v, c'))"
    show "sameProgram cfg c'"
    proof (cases "edgeActionOf cfg n e")
      case StopNode
      then show ?thesis using r 5(1) by simp
    next
      case SkipEdge
      then show ?thesis using r 5(2) by simp
    next
      case InitCallSite
      from r InitCallSite obtain c1 where
        a: "recordInitCallSite e (edgeUniquePos cfg e) cfg = Inr c1"
        and b: "collectEdges k n es nodesWorkList vis c1 = Some (Inr (v, c'))"
        by (auto dest!: thenDo_Inr)
      from sameProgram_recordInitCallSite[OF a sameProgram_refl] have "sameProgram cfg c1" .
      moreover have "sameProgram c1 c'" using 5(3)[OF InitCallSite] b by blast
      ultimately show ?thesis by (rule sameProgram_trans)
    next
      case Propagate
      from r Propagate obtain vis1 cfg1 nm vis3 cfg3 where
        a: "collectFnParam k nodesWorkList e vis cfg = Some (Inr (vis1, cfg1))"
        and b: "(if callerToCollect cfg1 (Caller e)
                  then collectFnDef k nodesWorkList (Caller e) (fnName (nodeFunc (Caller e)))
                         (getTypeWithPkgFromVar (Recv (fnSignature (nodeFunc (Caller e))))) vis1
                         (cfg1\<lparr>callSites := (callSites cfg1)(edgeUniquePos cfg e \<mapsto> CommonRepl)\<rparr>)
                  else Some (Inr (CtxParamName cfg1, vis1,
                         cfg1\<lparr>callSites := (callSites cfg1)(edgeUniquePos cfg e \<mapsto> CommonRepl)\<rparr>)))
                = Some (Inr (nm, vis3, cfg3))"
        and c: "collectEdges k n es nodesWorkList vis3
                  (recordParamName (edgeUniquePos cfg e) nm cfg3) = Some (Inr (v, c'))"
        by (fastforce dest!: thenDo_Inr)
      have s1: "sameProgram cfg cfg1" using 5(4)[OF Propagate] a by blast
      have s1': "sameProgram cfg (cfg1\<lparr>callSites := (callSites cfg1)(edgeUniquePos cfg e \<mapsto> CommonRepl)\<rparr>)"
        using s1 by (rule sameProgram_update)
      have s3: "sameProgram cfg cfg3"
      proof (cases "callerToCollect cfg1 (Caller e)")
        case True
        then have "sameProgram (cfg1\<lparr>callSites := (callSites cfg1)(edgeUniquePos cfg e \<mapsto> CommonRepl)\<rparr>) cfg3"
          using 5(5)[OF Propagate True] b by simp
        then show ?thesis using s1' sameProgram_trans by blast
      next
        case False
        then show ?thesis using b s1' by auto
      qed
      have "sameProgram cfg (recordParamName (edgeUniquePos cfg e) nm cfg3)"
        using s3 by (rule sameProgram_recordParamName)
      moreover have "sameProgram (recordParamName (edgeUniquePos cfg e) nm cfg3) c'"
        using 5(6)[OF Propagate] c by blast
      ultimately show ?thesis by (rule sameProgram_trans)
    qed
  qed
next
  case (6 nodesWorkList e vis cfg)
  then show ?case by simp
next
  case (7 k nodesWorkList e vis cfg)
  show ?case
  proof (intro allI impI)
    fix v c'
    assume r: "collectFnParam (Suc k) nodesWorkList e vis cfg = Some (Inr (v, c'))"
    show "sameProgram cfg c'"
    proof (cases "fnParamAction cfg e")
      case None
      then show ?thesis using r by (simp add: sameProgram_refl)
    next
      case (Some x)
      show ?thesis
      proof (cases x)
        case (Inl a)
        then show ?thesis using r Some by simp
      next
        case (Inr c1)
        have "sameProgram cfg c1"
          using sameProgram_fnParamAction[OF Some[unfolded Inr] sameProgram_refl] .
        moreover have "sameProgram c1 c'" using 7[OF Some Inr] r Some Inr by simp
        ultimately show ?thesis by (rule sameProgram_trans)
      qed
    qed
  qed
next
  case (8 nodesWorkList e os vis cfg)
  then show ?case by simp
next
  case (9 k nodesWorkList e vis cfg)
  then show ?case by (simp add: sameProgram_refl)
next
  case (10 k nodesWorkList e oe os vis cfg)
  show ?case
  proof (intro allI impI)
    fix v c'
    assume r: "collectOutEdges (Suc k) nodesWorkList e (oe # os) vis cfg = Some (Inr (v, c'))"
    show "sameProgram cfg c'"
    proof (cases "edgeUniquePos cfg oe = edgeUniquePos cfg e")
      case True
      from r True obtain nm vis1 cfg1 where
        a: "collectFnDef k nodesWorkList (Callee oe) (fnName (nodeFunc (Callee oe)))
              (getTypeWithPkgFromVar (Recv (fnSignature (nodeFunc (Callee oe))))) vis cfg
              = Some (Inr (nm, vis1, cfg1))"
        and b: "collectOutEdges k nodesWorkList e os vis1 cfg1 = Some (Inr (v, c'))"
        by (fastforce dest!: thenDo_Inr)
      have "sameProgram cfg cfg1" using 10(1)[OF True] a by blast
      moreover have "sameProgram cfg1 c'" using 10(2)[OF True] b by blast
      ultimately show ?thesis by (rule sameProgram_trans)
    next
      case False
      then show ?thesis using r 10(3) by simp
    qed
  qed
next
  case (11 nodesWorkList caller fnNm fnRecv vis cfg)
  then show ?case by simp
next
  case (12 k nodesWorkList caller fnNm fnRecv vis cfg)
  show ?case
  proof (intro allI impI)
    fix nm v c'
    assume r: "collectFnDef (Suc k) nodesWorkList caller fnNm fnRecv vis cfg
                 = Some (Inr (nm, v, c'))"
    show "sameProgram cfg c'"
    proof (cases "fnDefActionOf cfg caller vis")
      case (ReturnName x11 x12)
      then have "c' = x12" using r by simp
      then show ?thesis using sameProgram_fnDefActionOf[OF ReturnName sameProgram_refl] by simp
    next
      case (ToParent x21 x22 x23)
      then show ?thesis using r 12(1) by simp
    next
      case AlreadyVisited
      then show ?thesis using r by (simp add: sameProgram_refl)
    next
      case (Classify pt)
      from r Classify obtain enqueue cfg2 where
        a: "classifyFn cfg (nodeFunc caller) fnNm fnRecv pt False = Inr (enqueue, cfg2)"
        and b: "(if enqueue
               then thenDo (collect k (nodesWorkList @ [caller]) (insert (nodeID caller) vis) cfg2)
                      (\<lambda>(vis3, cfg3). Some (Inr (CtxParamName cfg3, vis3, cfg3)))
               else Some (Inr (CtxParamName cfg2, insert (nodeID caller) vis, cfg2)))
              = Some (Inr (nm, v, c'))"
        by (fastforce dest!: thenDo_Inr)
      have s2: "sameProgram cfg cfg2" using sameProgram_classifyFn[OF a sameProgram_refl] .
      show ?thesis
      proof (cases enqueue)
        case True
        then obtain vis3 where
          "collect k (nodesWorkList @ [caller]) (insert (nodeID caller) vis) cfg2
             = Some (Inr (vis3, c'))"
          using b by (fastforce dest!: thenDo_Inr)
        then have "sameProgram cfg2 c'" using 12(2)[OF Classify True] by blast
        then show ?thesis using s2 sameProgram_trans by blast
      next
        case False
        then show ?thesis using b s2 by simp
      qed
    qed
  qed
qed

section \<open>A caller that already takes a context\<close>



lemma getUniquePosPkg_sameProgram:
  assumes "sameProgram c c'"
  shows "getUniquePosPkg c' pk p = getUniquePosPkg c pk p"
  using sameProgram_fields[OF assms] by (simp add: getUniquePosPkg_def cong: option.case_cong)

lemma getUniquePosSSAFn_sameProgram:
  assumes "sameProgram c c'"
  shows "getUniquePosSSAFn c' f p = getUniquePosSSAFn c f p"
  using getUniquePosPkg_sameProgram[OF assms] by (simp add: getUniquePosSSAFn_def)



section \<open>The closure over interfaces and named types\<close>

subsection \<open>The loop of \<open>analyze\<close> makes one pass\<close>

text \<open>
  \<open>collectIfaces\<close> merges the map \<open>ifaceModifiedNew\<close>, which is empty, so it always
  answers that nothing was added, and the loop of \<open>analyze\<close> ends after its first
  pass, whatever the pass has changed.
\<close>

lemma collectIfaces_not_added:
  "collectIfaces namedModified cfg = Inr (added, cfg') \<Longrightarrow> \<not> added"
  by (auto simp: collectIfaces_def split: sum.splits)

lemma closureLoop_one_pass:
  "closureLoop (Suc (Suc k)) True namedModified cfg = closurePass (Suc k) namedModified cfg"
proof (cases "collectIfaces namedModified cfg")
  case (Inl x)
  then show ?thesis by (simp add: closurePass_def)
next
  case (Inr r)
  obtain added cfg1 where r: "r = (added, cfg1)" by (cases r)
  have "\<not> added" using Inr r collectIfaces_not_added by blast
  then show ?thesis
    unfolding closureLoop.simps closurePass_def Inr r
    by (auto simp: thenDo_def split: option.splits sum.splits)
qed

text \<open>
  C3. In the program with the interfaces \<open>I1\<close>, \<open>I2\<close>, \<open>I3\<close>, the analysis ends with
  \<open>I1\<close> and \<open>I2\<close> in \<open>ifaceModified\<close>; one further pass of \<open>collectIfaces\<close> and
  \<open>collectNamedTypes\<close> adds \<open>I3\<close>: the loop has ended before a fixed point.
\<close>

theorem closureLoop_exits_before_fixed_point:
  "modifiedInterfaces (analyze 10 chainConfig) = Some (Inr [1, 2])
   \<and> modifiedInterfaces (furtherPass 10 (analyze 10 chainConfig)) = Some (Inr [1, 2, 3])"
  by code_simp

end
